theory Spec2Isabelle
  imports Complex_Main "HOL-Library.Sublist" "HOL-Library.Char_ord"
begin

section \<open>Python strings and characters\<close>

text \<open>
  A Python \<open>str\<close> is a sequence of code points. The model takes the code points
  U+0000 to U+00FF (Latin-1, which covers the Portuguese text of the reports): a
  \<^typ>\<open>char\<close> stands for the code point \<open>of_char c\<close>, and a \<^typ>\<open>string\<close> is a Python
  string whose characters all lie in that range. The order on \<^typ>\<open>char\<close> is the order
  of the code points. The character classes below are those of Python 3 on that range.
\<close>

definition in_range :: "char \<Rightarrow> char \<Rightarrow> char \<Rightarrow> bool" where
  "in_range lo hi c = (lo \<le> c \<and> c \<le> hi)"

text \<open>\<open>\d\<close> of the \<open>re\<close> module (Unicode category Nd): \<open>0\<close> to \<open>9\<close>.\<close>

definition re_digit :: "char \<Rightarrow> bool" where
  "re_digit c = in_range CHR ''0'' CHR ''9'' c"

text \<open>\<open>str.isdigit\<close>: the decimal digits and the superscripts U+00B2, U+00B3, U+00B9.\<close>

definition py_isdigit :: "char \<Rightarrow> bool" where
  "py_isdigit c = (in_range CHR ''0'' CHR ''9'' c \<or> in_range (CHR 0xB2) (CHR 0xB3) c \<or> c = CHR 0xB9)"

text \<open>\<open>\s\<close>, \<open>str.isspace\<close>, and what \<open>str.strip()\<close> and \<open>str.split()\<close> remove:
  U+0009 to U+000D, U+001C to U+0020, U+0085 and U+00A0.\<close>

definition py_isspace :: "char \<Rightarrow> bool" where
  "py_isspace c = (in_range (CHR 0x09) (CHR 0x0D) c \<or> in_range (CHR 0x1C) (CHR 0x20) c \<or>
     c = CHR 0x85 \<or> c = CHR 0xA0)"

text \<open>\<open>str.isalpha\<close>: A-Z, a-z, U+00AA, U+00B5, U+00BA, and U+00C0 to U+00FF without the
  signs U+00D7 and U+00F7.\<close>

definition py_isalpha :: "char \<Rightarrow> bool" where
  "py_isalpha c = (in_range CHR ''A'' CHR ''Z'' c \<or> in_range CHR ''a'' CHR ''z'' c \<or>
     c = CHR 0xAA \<or> c = CHR 0xB5 \<or> c = CHR 0xBA \<or> in_range (CHR 0xC0) (CHR 0xD6) c \<or>
     in_range (CHR 0xD8) (CHR 0xF6) c \<or> in_range (CHR 0xF8) (CHR 0xFF) c)"

text \<open>\<open>\w\<close>: the alphanumeric characters (the letters, the digits of \<open>str.isdigit\<close> and the
  fractions U+00BC to U+00BE) and the underscore.\<close>

definition re_word :: "char \<Rightarrow> bool" where
  "re_word c = (py_isalpha c \<or> py_isdigit c \<or> c = CHR ''_'' \<or> in_range (CHR 0xBC) (CHR 0xBE) c)"

definition py_isupper_char :: "char \<Rightarrow> bool" where
  "py_isupper_char c = (in_range CHR ''A'' CHR ''Z'' c \<or> in_range (CHR 0xC0) (CHR 0xD6) c \<or>
     in_range (CHR 0xD8) (CHR 0xDE) c)"

definition py_islower_char :: "char \<Rightarrow> bool" where
  "py_islower_char c = (in_range CHR ''a'' CHR ''z'' c \<or> c = CHR 0xAA \<or> c = CHR 0xB5 \<or>
     c = CHR 0xBA \<or> in_range (CHR 0xDF) (CHR 0xF6) c \<or> in_range (CHR 0xF8) (CHR 0xFF) c)"

text \<open>
  \<open>str.upper\<close>, character by character. The upper case of a-z and of U+00E0 to U+00FE
  (but the sign U+00F7) lies 32 below: bit 5 of the code point is cleared. U+00DF
  becomes \<open>SS\<close>. Python sends U+00FF to U+0178 and U+00B5 to U+039C, which lie outside
  the range of the model; the model leaves these two fixed. No character of the range
  has U+00FF or U+00B5 as its upper case, and upper-cased strings are only ever compared
  with one another, so every comparison comes out as in Python.
\<close>

definition minus_32 :: "char \<Rightarrow> char" where
  "minus_32 c = (case c of Char b0 b1 b2 b3 b4 b5 b6 b7 \<Rightarrow> Char b0 b1 b2 b3 b4 False b6 b7)"

definition upper_char :: "char \<Rightarrow> string" where
  "upper_char c =
     (if c = CHR 0xDF then ''SS''
      else if in_range CHR ''a'' CHR ''z'' c \<or> (in_range (CHR 0xE0) (CHR 0xFE) c \<and> c \<noteq> CHR 0xF7)
      then [minus_32 c]
      else [c])"

definition py_upper :: "string \<Rightarrow> string" where
  "py_upper s = concat (map upper_char s)"

text \<open>\<open>str.isupper\<close>: no lower-case character and at least one upper-case character.\<close>

definition py_isupper :: "string \<Rightarrow> bool" where
  "py_isupper s = (list_ex py_isupper_char s \<and> \<not> list_ex py_islower_char s)"

definition py_strip :: "string \<Rightarrow> string" where
  "py_strip s = rev (dropWhile py_isspace (rev (dropWhile py_isspace s)))"

text \<open>\<open>str.split()\<close> with no argument: the maximal runs of characters that are not white space.\<close>

fun split_ws :: "string \<Rightarrow> string \<Rightarrow> string list" where
  "split_ws w [] = (if w = [] then [] else [rev w])"
| "split_ws w (c # cs) =
     (if py_isspace c then (if w = [] then split_ws [] cs else rev w # split_ws [] cs)
      else split_ws (c # w) cs)"

definition py_split :: "string \<Rightarrow> string list" where
  "py_split s = split_ws [] s"

text \<open>\<open>s.split(sep)\<close> for a one-character separator: the pieces between the separators.\<close>

fun split_on :: "char \<Rightarrow> string \<Rightarrow> string \<Rightarrow> string list" where
  "split_on sep w [] = [rev w]"
| "split_on sep w (c # cs) =
     (if c = sep then rev w # split_on sep [] cs else split_on sep (c # w) cs)"

fun py_join :: "string \<Rightarrow> string list \<Rightarrow> string" where
  "py_join sep [] = []"
| "py_join sep [x] = x"
| "py_join sep (x # y # ys) = x @ sep @ py_join sep (y # ys)"

text \<open>\<open>a in b\<close> on strings is \<^const>\<open>sublist\<close>; \<open>b.startswith(a)\<close> is \<^const>\<open>prefix\<close>.\<close>

definition py_count :: "char \<Rightarrow> string \<Rightarrow> nat" where
  "py_count c s = length (filter (\<lambda>x. x = c) s)"

text \<open>\<open>s.replace(old, new, 1)\<close> and \<open>s.replace(old, new)\<close>, for a non-empty \<open>old\<close>
  (with an empty \<open>old\<close> Python inserts \<open>new\<close> between the characters; no caller passes one).\<close>

fun replace_first :: "string \<Rightarrow> string \<Rightarrow> string \<Rightarrow> string" where
  "replace_first old new [] = []"
| "replace_first old new (c # cs) =
     (if old \<noteq> [] \<and> prefix old (c # cs) then new @ drop (length old) (c # cs)
      else c # replace_first old new cs)"

function replace_all :: "string \<Rightarrow> string \<Rightarrow> string \<Rightarrow> string" where
  "replace_all old new s =
     (if s = [] then []
      else if old \<noteq> [] \<and> prefix old s then new @ replace_all old new (drop (length old) s)
      else hd s # replace_all old new (tl s))"
  by pat_completeness auto
termination
  by (relation "measure (\<lambda>(old, new, s). length s)") (auto simp: neq_Nil_conv)

declare replace_all.simps [simp del]

text \<open>The decimal numeral of a natural number, as an f-string prints it.\<close>

function show_nat :: "nat \<Rightarrow> string" where
  "show_nat n = (if n < 10 then [''0123456789'' ! n] else show_nat (n div 10) @ [''0123456789'' ! (n mod 10)])"
  by pat_completeness auto
termination
  by (relation "measure id") auto

declare show_nat.simps [simp del]

section \<open>Exceptions\<close>

datatype py_error = IndexError | AttributeError | ValueError | ZeroDivisionError

definition bind_res :: "py_error + 'a \<Rightarrow> ('a \<Rightarrow> py_error + 'b) \<Rightarrow> py_error + 'b" where
  "bind_res r f = (case r of Inl e \<Rightarrow> Inl e | Inr a \<Rightarrow> f a)"

text \<open>\<open>xs[i]\<close>: a negative index counts from the end; out of range raises \<open>IndexError\<close>.\<close>

definition py_index :: "'a list \<Rightarrow> int \<Rightarrow> py_error + 'a" where
  "py_index xs i =
     (if 0 \<le> i \<and> i < int (length xs) then Inr (xs ! nat i)
      else if i < 0 \<and> - i \<le> int (length xs) then Inr (xs ! nat (int (length xs) + i))
      else Inl IndexError)"

text \<open>A method call on the result of \<open>re.search\<close>: on \<open>None\<close> it raises \<open>AttributeError\<close>.\<close>

definition match_obj :: "'a option \<Rightarrow> py_error + 'a" where
  "match_obj m = (case m of None \<Rightarrow> Inl AttributeError | Some a \<Rightarrow> Inr a)"

section \<open>Regular expressions, as backtracking matchers\<close>

text \<open>
  A pattern is written as the matcher the \<open>re\<close> module runs for it: a function of the
  character before the current position (\<open>None\<close> at the start of the string) and of the
  rest of the input, in continuation-passing style. Each combinator takes the matcher of
  what follows it in the pattern, tries its own alternatives in the order of the
  backtracking engine (a greedy quantifier the longest first) and yields the first
  result the continuation accepts.
\<close>

text \<open>A property of the character before the position, and of the one at it; false where
  there is none.\<close>

definition prev_is :: "(char \<Rightarrow> bool) \<Rightarrow> char option \<Rightarrow> bool" where
  "prev_is P prev = (case prev of None \<Rightarrow> False | Some p \<Rightarrow> P p)"

definition next_is :: "(char \<Rightarrow> bool) \<Rightarrow> string \<Rightarrow> bool" where
  "next_is P cs = (case cs of [] \<Rightarrow> False | n # _ \<Rightarrow> P n)"

type_synonym 'a rx = "char option \<Rightarrow> string \<Rightarrow> 'a option"

definition rx_cls :: "(char \<Rightarrow> bool) \<Rightarrow> 'a rx \<Rightarrow> 'a rx" where
  "rx_cls P k prev s = (case s of [] \<Rightarrow> None | c # cs \<Rightarrow> if P c then k (Some c) cs else None)"

definition rx_chr :: "char \<Rightarrow> 'a rx \<Rightarrow> 'a rx" where
  "rx_chr c k = rx_cls (\<lambda>x. x = c) k"

text \<open>\<open>rx_try lo hi f\<close>: the first of \<open>f hi, f (hi - 1), ..., f lo\<close> that succeeds.\<close>

fun rx_try :: "nat \<Rightarrow> nat \<Rightarrow> (nat \<Rightarrow> 'a option) \<Rightarrow> 'a option" where
  "rx_try lo 0 f = (if lo = 0 then f 0 else None)"
| "rx_try lo (Suc h) f =
     (if Suc h < lo then None
      else case f (Suc h) of Some a \<Rightarrow> Some a | None \<Rightarrow> rx_try lo h f)"

definition prev_after :: "char option \<Rightarrow> string \<Rightarrow> nat \<Rightarrow> char option" where
  "prev_after prev s j = (if j = 0 then prev else Some (s ! (j - 1)))"

text \<open>\<open>[P]{lo,hi}\<close> (greedy; \<open>hi = None\<close> for no upper bound) on a character class.\<close>

definition rx_rep :: "(char \<Rightarrow> bool) \<Rightarrow> nat \<Rightarrow> nat option \<Rightarrow> 'a rx \<Rightarrow> 'a rx" where
  "rx_rep P lo hi k prev s =
     (let n = length (takeWhile P s);
          m = (case hi of None \<Rightarrow> n | Some h \<Rightarrow> min h n)
      in rx_try lo m (\<lambda>j. k (prev_after prev s j) (drop j s)))"

text \<open>\<open>(?:body)*\<close> (greedy) on a group; an iteration has to consume input.\<close>

function rx_star :: "('a rx \<Rightarrow> 'a rx) \<Rightarrow> 'a rx \<Rightarrow> 'a rx" where
  "rx_star body k prev s =
     (case body (\<lambda>p r. if length r < length s then rx_star body k p r else None) prev s of
        Some a \<Rightarrow> Some a
      | None \<Rightarrow> k prev s)"
  by pat_completeness auto
termination
  by (relation "measure (\<lambda>(body, k, prev, s). length s)") auto

declare rx_star.simps [simp del]

definition rx_alt :: "'a rx \<Rightarrow> 'a rx \<Rightarrow> 'a rx" where
  "rx_alt a b prev s = (case a prev s of Some x \<Rightarrow> Some x | None \<Rightarrow> b prev s)"

text \<open>\<open>\b\<close>: exactly one of the two neighbours is a word character.\<close>

definition rx_wordb :: "'a rx \<Rightarrow> 'a rx" where
  "rx_wordb k prev s = (if prev_is re_word prev \<noteq> next_is re_word s then k prev s else None)"

text \<open>\<open>$\<close>: the end of the string, or just before a newline that ends it.\<close>

definition rx_eol :: "'a rx \<Rightarrow> 'a rx" where
  "rx_eol k prev s = (if s = [] \<or> s = [CHR 0x0A] then k prev s else None)"

text \<open>\<open>(?!P)\<close> for one character class.\<close>

definition rx_not_ahead :: "(char \<Rightarrow> bool) \<Rightarrow> 'a rx \<Rightarrow> 'a rx" where
  "rx_not_ahead P k prev s = (case s of [] \<Rightarrow> k prev s | c # _ \<Rightarrow> if P c then None else k prev s)"

text \<open>The end of a pattern: the match succeeds and hands back the input that is left.\<close>

definition rx_end :: "string rx" where
  "rx_end prev s = Some s"

text \<open>A literal string.\<close>

fun rx_lit :: "string \<Rightarrow> 'a rx \<Rightarrow> 'a rx" where
  "rx_lit [] k = k"
| "rx_lit (c # cs) k = rx_chr c (rx_lit cs k)"

subsection \<open>The entry points of the \<open>re\<close> module\<close>

text \<open>\<open>re.match\<close>: the pattern at the start of the string.\<close>

definition re_match :: "'a rx \<Rightarrow> string \<Rightarrow> 'a option" where
  "re_match m s = m None s"

text \<open>\<open>re.search\<close>: the leftmost position where the pattern matches, with the match.\<close>

fun re_search_from :: "'a rx \<Rightarrow> nat \<Rightarrow> char option \<Rightarrow> string \<Rightarrow> (nat \<times> 'a) option" where
  "re_search_from m i prev [] = (case m prev [] of None \<Rightarrow> None | Some a \<Rightarrow> Some (i, a))"
| "re_search_from m i prev (c # cs) =
     (case m prev (c # cs) of
        Some a \<Rightarrow> Some (i, a)
      | None \<Rightarrow> re_search_from m (Suc i) (Some c) cs)"

definition re_search :: "'a rx \<Rightarrow> string \<Rightarrow> (nat \<times> 'a) option" where
  "re_search m s = re_search_from m 0 None s"

text \<open>
  \<open>re.finditer\<close>: the matches from left to right, none overlapping another, each as
  (start, end, text). The matcher hands back the input left after the match. No pattern
  of the program matches the empty string; a matcher that consumes nothing counts as no
  match here.
\<close>

function re_finditer_from :: "string rx \<Rightarrow> nat \<Rightarrow> char option \<Rightarrow> string \<Rightarrow> (nat \<times> nat \<times> string) list" where
  "re_finditer_from m i prev s =
     (if s = [] then []
      else case m prev s of
        None \<Rightarrow> re_finditer_from m (Suc i) (Some (hd s)) (tl s)
      | Some r \<Rightarrow>
          (let n = length s - length r in
           if n = 0 then re_finditer_from m (Suc i) (Some (hd s)) (tl s)
           else (i, i + n, take n s) # re_finditer_from m (i + n) (Some (s ! (n - 1))) (drop n s)))"
  by pat_completeness auto
termination
  by (relation "measure (\<lambda>(m, i, prev, s). length s)") auto

declare re_finditer_from.simps [simp del]

definition re_finditer :: "string rx \<Rightarrow> string \<Rightarrow> (nat \<times> nat \<times> string) list" where
  "re_finditer m s = re_finditer_from m 0 None s"

text \<open>\<open>re.findall\<close> for a pattern with no group or one group around all of it.\<close>

definition re_findall :: "string rx \<Rightarrow> string \<Rightarrow> string list" where
  "re_findall m s = map (\<lambda>(a, b, t). t) (re_finditer m s)"

text \<open>\<open>re.sub\<close>: the matcher hands back the replacement text and the input left.\<close>

function re_sub_from :: "(string \<times> string) rx \<Rightarrow> char option \<Rightarrow> string \<Rightarrow> string" where
  "re_sub_from m prev s =
     (if s = [] then []
      else case m prev s of
        None \<Rightarrow> hd s # re_sub_from m (Some (hd s)) (tl s)
      | Some (rep, r) \<Rightarrow>
          (let n = length s - length r in
           if n = 0 then hd s # re_sub_from m (Some (hd s)) (tl s)
           else rep @ re_sub_from m (Some (s ! (n - 1))) (drop n s)))"
  by pat_completeness auto
termination
  by (relation "measure (\<lambda>(m, prev, s). length s)") auto

declare re_sub_from.simps [simp del]

definition re_sub :: "(string \<times> string) rx \<Rightarrow> string \<Rightarrow> string" where
  "re_sub m s = re_sub_from m None s"

text \<open>The end of a pattern whose every match is replaced by the same text.\<close>

definition rx_const :: "string \<Rightarrow> (string \<times> string) rx" where
  "rx_const rep prev s = Some (rep, s)"

section \<open>The record of one account line\<close>

record entry =
  code :: "string option"
  classification :: "string option"
  account :: string
  previous_balance :: "string option"
  current_balance :: "string option"
  debit :: "string option"
  credit :: "string option"
  parent_category :: "string option"

section \<open>\<open>extract_pdf.py\<close>\<close>

subsection \<open>\<open>remove_duplicate_text\<close>\<close>

text \<open>
  \<open>sum(c1 == c2 for c1, c2 in zip(word, next_word)) / max(len(word), len(next_word))\<close>.
  The quotient is a rational number here and is compared with 8/10; the
  floating-point quotient of Python compares with \<open>0.8\<close> in the same way for words
  shorter than \<open>2^50\<close> characters.
\<close>

definition similarity :: "string \<Rightarrow> string \<Rightarrow> py_error + rat" where
  "similarity word next_word =
     (let eqs = length (filter (\<lambda>(c1, c2). c1 = c2) (zip word next_word));
          d = max (length word) (length next_word)
      in if d = 0 then Inl ZeroDivisionError else Inr (of_nat eqs / of_nat d))"

text \<open>The \<open>while\<close> loop over \<open>words\<close>: \<open>i += 2\<close> after a similar pair, \<open>i += 1\<close> otherwise.\<close>

fun dedup_words :: "string list \<Rightarrow> py_error + string list" where
  "dedup_words [] = Inr []"
| "dedup_words [w] = Inr [w]"
| "dedup_words (w # n # rest) =
     (if length w > 3 \<and> length n > 3 then
        (case similarity w n of
           Inl e \<Rightarrow> Inl e
         | Inr sim \<Rightarrow>
             if sim > 8 / 10 then
               (case dedup_words rest of Inl e \<Rightarrow> Inl e | Inr r \<Rightarrow> Inr (w # r))
             else
               (case dedup_words (n # rest) of Inl e \<Rightarrow> Inl e | Inr r \<Rightarrow> Inr (w # r)))
      else (case dedup_words (n # rest) of Inl e \<Rightarrow> Inl e | Inr r \<Rightarrow> Inr (w # r)))"

definition remove_duplicate_text :: "string \<Rightarrow> py_error + string" where
  "remove_duplicate_text txt =
     (if txt = [] then Inr []
      else let words = py_split txt in
        if length words < 2 then Inr txt
        else bind_res (dedup_words words) (\<lambda>result. Inr (py_join '' '' result)))"

subsection \<open>\<open>clean_account_name_final\<close>\<close>

text \<open>\<open>\d+\.\d+\.\d+\.\d+\.\d+\<close>, and the same between two \<open>\b\<close>.\<close>

definition rx_class5 :: "'a rx \<Rightarrow> 'a rx" where
  "rx_class5 k =
     rx_rep re_digit 1 None (rx_chr CHR ''.''
    (rx_rep re_digit 1 None (rx_chr CHR ''.''
    (rx_rep re_digit 1 None (rx_chr CHR ''.''
    (rx_rep re_digit 1 None (rx_chr CHR ''.''
    (rx_rep re_digit 1 None k))))))))"

definition rx_class5_b :: "string rx" where
  "rx_class5_b = rx_wordb (rx_class5 (rx_wordb rx_end))"

text \<open>\<open>^\d{4,6}\s+\<close>\<close>

definition rx_leading_code :: "string rx" where
  "rx_leading_code = rx_rep re_digit 4 (Some 6) (rx_rep py_isspace 1 None rx_end)"

text \<open>The f-string \<open>__PROTECTED_{i}__\<close>.\<close>

definition placeholder :: "nat \<Rightarrow> string" where
  "placeholder i = ''__PROTECTED_'' @ show_nat i @ ''__''"

text \<open>
  The loop over \<open>re.finditer\<close>, which runs on the string as it was before the loop:
  the \<open>i\<close>-th match is replaced, where it first occurs, by the \<open>i\<close>-th placeholder.
\<close>

fun protect :: "string list \<Rightarrow> nat \<Rightarrow> string \<Rightarrow> string" where
  "protect [] i name = name"
| "protect (m # ms) i name = protect ms (Suc i) (replace_first m (placeholder i) name)"

fun restore :: "string list \<Rightarrow> nat \<Rightarrow> string \<Rightarrow> string" where
  "restore [] i name = name"
| "restore (c # cs) i name = restore cs (Suc i) (replace_all (placeholder i) c name)"

text \<open>
  The loop over the characters of \<open>name\<close>: \<open>prev\<close> is \<open>name[i-1]\<close> (\<open>None\<close> when
  \<open>i = 0\<close>), the head of the list is \<open>name[i]\<close> and the next element \<open>name[i+1]\<close>
  (\<open>i < len(name) - 1\<close> when there is one). \<open>keep_digit\<close> is the body of
  \<open>if char.isdigit()\<close>: whether the digit is appended to \<open>cleaned\<close>.
\<close>

definition keep_digit :: "char option \<Rightarrow> string \<Rightarrow> bool" where
  "keep_digit prev cs =
     (let prev_is_alpha = prev_is py_isalpha prev;
          next_is_alpha = next_is py_isalpha cs
      in if prev_is_alpha \<and> next_is_alpha then False
         else if prev_is py_isdigit prev then True
         else if next_is py_isdigit cs then True
         else if prev_is_alpha \<or> next_is_alpha then False
         else True)"

fun digit_loop :: "char option \<Rightarrow> string \<Rightarrow> string" where
  "digit_loop prev [] = []"
| "digit_loop prev (c # cs) =
     (if py_isdigit c \<and> \<not> keep_digit prev cs then digit_loop (Some c) cs
      else c # digit_loop (Some c) cs)"

text \<open>\<open>([A-Za-z\<Agrave>-\<ydieresis>]+)(\d+)(\s|$|[A-Z])\<close> replaced by \<open>\1\3\<close>: the class of the first
  group is A-Z, a-z and U+00C0 to U+00FF.\<close>

definition latin_letter :: "char \<Rightarrow> bool" where
  "latin_letter c = (in_range CHR ''A'' CHR ''Z'' c \<or> in_range CHR ''a'' CHR ''z'' c \<or> in_range (CHR 0xC0) (CHR 0xFF) c)"

definition rx_letters_digits :: "(string \<times> string) rx" where
  "rx_letters_digits prev s =
     rx_rep latin_letter 1 None (\<lambda>p1 r1.
       rx_rep re_digit 1 None (\<lambda>p2 r2.
         (let k3 = (\<lambda>p3 r3. Some (take (length s - length r1) s @ take (length r2 - length r3) r2, r3))
          in rx_alt (rx_cls py_isspace k3) (rx_alt (rx_eol k3) (rx_cls (in_range CHR ''A'' CHR ''Z'') k3)) p2 r2))
       p1 r1) prev s"

text \<open>\<open>\.(?!\d)\<close> replaced by a space, and \<open>\s+\<close> replaced by a space.\<close>

definition rx_dot_not_digit :: "(string \<times> string) rx" where
  "rx_dot_not_digit = rx_chr CHR ''.'' (rx_not_ahead re_digit (rx_const '' ''))"

definition rx_spaces :: "(string \<times> string) rx" where
  "rx_spaces = rx_rep py_isspace 1 None (rx_const '' '')"

definition clean_account_name_final :: "string \<Rightarrow> py_error + string" where
  "clean_account_name_final name =
     (if name = [] then Inr []
      else
        let name1 = (case re_match rx_leading_code name of None \<Rightarrow> name | Some r \<Rightarrow> r);
            protected_parts = re_findall rx_class5_b name1;
            name2 = protect protected_parts 0 name1;
            cleaned = digit_loop None name2;
            name3 = restore protected_parts 0 cleaned;
            name4 = re_sub rx_letters_digits name3;
            name5 = re_sub rx_dot_not_digit name4;
            name6 = re_sub rx_spaces name5
        in bind_res (remove_duplicate_text name6) (\<lambda>name7. Inr (py_strip name7)))"

subsection \<open>\<open>parse_monetary_value\<close>\<close>

text \<open>\<open>[^\d.,]\<close> removed, then \<open>^[\d\.]+,\d{2}$\<close> matched.\<close>

definition money_char :: "char \<Rightarrow> bool" where
  "money_char c = (re_digit c \<or> c = CHR ''.'' \<or> c = CHR '','')"

definition digit_or_dot :: "char \<Rightarrow> bool" where
  "digit_or_dot c = (re_digit c \<or> c = CHR ''.'')"

definition rx_monetary :: "'a rx \<Rightarrow> 'a rx" where
  "rx_monetary k = rx_rep digit_or_dot 1 None (rx_chr CHR '','' (rx_cls re_digit (rx_cls re_digit k)))"

definition parse_monetary_value :: "string \<Rightarrow> string option" where
  "parse_monetary_value v =
     (if v = [] then None
      else let cleaned = re_sub (rx_cls (\<lambda>c. \<not> money_char c) (rx_const [])) v in
        if re_match (rx_monetary (rx_eol rx_end)) cleaned \<noteq> None then Some cleaned else None)"

subsection \<open>\<open>parse_data_line\<close>\<close>

definition skip_keywords :: "string list" where
  "skip_keywords =
     [''EMPRESA:'', ''C.N.P.J.:'', ''PER'' @ [CHR 0xCD] @ ''ODO:'', ''EMISS'' @ [CHR 0xC3] @ ''O:'',
      ''HORA:'', ''BALANCETE'', ''C'' @ [CHR 0xD3] @ ''DIGO'',
      ''CLASSIFICA'' @ [CHR 0xC7, CHR 0xC3] @ ''O'', ''DESCRI'' @ [CHR 0xC7, CHR 0xC3] @ ''O'',
      ''SALDO ANTERIOR'', ''D'' @ [CHR 0xC9] @ ''BITO'', ''CR'' @ [CHR 0xC9] @ ''DITO'', ''SALDO ATUAL'',
      ''CONSOLIDADO'', ''CPF:'', replicate 39 CHR ''_'',
      ''GILMIER'', ''CRISTIANI'', ''MIRI'', ''ZUCOLOTO'', ''N'' @ [CHR 0xDA] @ ''MERO LIVRO'', ''FOLHA:'']"

text \<open>\<open>any(keyword in line.upper() for keyword in keywords)\<close>\<close>

definition has_keyword :: "string list \<Rightarrow> string \<Rightarrow> bool" where
  "has_keyword keywords line = list_ex (\<lambda>keyword. sublist keyword (py_upper line)) keywords"

text \<open>A match object as (\<open>start()\<close>, \<open>end()\<close>, \<open>group()\<close>), from \<open>re.search\<close>.\<close>

definition search_span :: "string rx \<Rightarrow> string \<Rightarrow> (nat \<times> nat \<times> string) option" where
  "search_span m s =
     (case re_search m s of
        None \<Rightarrow> None
      | Some (i, r) \<Rightarrow> Some (i, length s - length r, take (length s - length r - i) (drop i s)))"

text \<open>\<open>\b(\d{4,6})\b\<close>\<close>

definition rx_code :: "string rx" where
  "rx_code = rx_wordb (rx_rep re_digit 4 (Some 6) (rx_wordb rx_end))"

text \<open>\<open>x if x else None\<close>, and \<open>not x\<close>, for a value that is a string or \<open>None\<close>.\<close>

definition or_none :: "string option \<Rightarrow> string option" where
  "or_none x = (if x = Some [] then None else x)"

definition falsy :: "string option \<Rightarrow> bool" where
  "falsy x = (x = None \<or> x = Some [])"

text \<open>The record with no code, classification or amounts: a line with no monetary value.\<close>

definition bare_entry :: "string \<Rightarrow> entry" where
  "bare_entry a =
     \<lparr>code = None, classification = None, account = a, previous_balance = None,
      current_balance = None, debit = None, credit = None, parent_category = None\<rparr>"

text \<open>
  The \<open>if len(monetary_values) >= 4 ... elif ... == 1\<close> chain of \<open>parse_data_line\<close>:
  (\<open>previous_balance\<close>, \<open>debit\<close>, \<open>credit\<close>, \<open>current_balance\<close>).
\<close>

definition slot :: "string list \<Rightarrow> int \<Rightarrow> py_error + string option" where
  "slot monetary_values i = bind_res (py_index monetary_values i) (\<lambda>v. Inr (parse_monetary_value v))"

definition assign_slots ::
  "string list \<Rightarrow> py_error + (string option \<times> string option \<times> string option \<times> string option)" where
  "assign_slots monetary_values =
     (if length monetary_values \<ge> 4 then
        bind_res (slot monetary_values 0) (\<lambda>pb.
        bind_res (slot monetary_values 1) (\<lambda>d.
        bind_res (slot monetary_values 2) (\<lambda>c.
        bind_res (slot monetary_values 3) (\<lambda>cb. Inr (pb, d, c, cb)))))
      else if length monetary_values = 3 then
        bind_res (slot monetary_values 0) (\<lambda>pb.
        bind_res (slot monetary_values 1) (\<lambda>d.
        bind_res (slot monetary_values 2) (\<lambda>c. Inr (pb, d, c, None))))
      else if length monetary_values = 2 then
        bind_res (slot monetary_values 0) (\<lambda>pb.
        bind_res (slot monetary_values 1) (\<lambda>cb. Inr (pb, None, None, cb)))
      else if length monetary_values = 1 then
        bind_res (slot monetary_values 0) (\<lambda>cb. Inr (None, None, None, cb))
      else Inr (None, None, None, None))"

text \<open>
  The code and classification of the text before the first amount: (\<open>code\<close>,
  \<open>classification\<close>, \<open>account_start_idx\<close>). \<open>rx_cls5\<close> is the pattern of the
  classification, which differs between the versions of the program.
\<close>

definition code_and_classification ::
  "string rx \<Rightarrow> string \<Rightarrow> py_error + (string option \<times> string option \<times> nat)" where
  "code_and_classification rx_cls5 parts_before_values =
     (let classification_match = search_span rx_cls5 parts_before_values;
          classification = (case classification_match of None \<Rightarrow> None | Some (a, b, t) \<Rightarrow> Some t);
          idx0 = (case classification_match of None \<Rightarrow> 0 | Some (a, b, t) \<Rightarrow> b);
          code_match1 = (if falsy classification then search_span rx_code parts_before_values else None);
          code1 = (case code_match1 of None \<Rightarrow> None | Some (a, b, t) \<Rightarrow> Some t);
          idx1 = (case code_match1 of None \<Rightarrow> idx0 | Some (a, b, t) \<Rightarrow> b)
      in if \<not> falsy classification then
           bind_res (match_obj classification_match) (\<lambda>(cstart, cend, ctext).
             let code_before = py_strip (take cstart parts_before_values) in
             Inr (case search_span rx_code code_before of
                    None \<Rightarrow> (code1, classification, idx1)
                  | Some (a, b, t) \<Rightarrow> (Some t, classification, idx1)))
         else Inr (code1, classification, idx1))"

definition parse_data_line :: "string \<Rightarrow> py_error + entry option" where
  "parse_data_line line0 =
     (if line0 = [] \<or> length (py_strip line0) < 3 then Inr None
      else
        let line = py_strip line0 in
        if has_keyword skip_keywords line then Inr None
        else
          let monetary_matches = re_finditer (rx_monetary rx_end) line in
          if monetary_matches = [] then
            (if length line > 10 then
               bind_res (clean_account_name_final line) (\<lambda>cleaned_account.
                 if cleaned_account \<noteq> [] \<and> length cleaned_account > 3
                 then Inr (Some (bare_entry cleaned_account)) else Inr None)
             else Inr None)
          else
            let monetary_values = map (\<lambda>(a, b, t). t) monetary_matches;
                value_positions = monetary_matches
            in
            bind_res (py_index value_positions 0) (\<lambda>(vstart, vend, vtext).
            let parts_before_values = py_strip (take vstart line) in
            bind_res (code_and_classification rx_class5_b parts_before_values)
              (\<lambda>(code_v, classification_v, account_start_idx).
            let account_text = py_strip (drop account_start_idx parts_before_values) in
            bind_res (clean_account_name_final account_text) (\<lambda>account_v.
            if account_v = [] \<or> length account_v < 3 then Inr None
            else
              bind_res (assign_slots monetary_values) (\<lambda>(pb, d, c, cb).
                Inr (Some \<lparr>code = or_none code_v, classification = or_none classification_v,
                           account = account_v, previous_balance = or_none pb,
                           current_balance = or_none cb, debit = or_none d, credit = or_none c,
                           parent_category = None\<rparr>))))))"

section \<open>\<open>final_balancete_parser.py\<close>\<close>

subsection \<open>\<open>skip_line\<close>\<close>

text \<open>\<open>re.search(pattern, line)\<close> finds a match; \<open>.\<close> is any character but a newline.\<close>

definition found :: "string rx \<Rightarrow> string \<Rightarrow> bool" where
  "found m s = (re_search m s \<noteq> None)"

definition rx_any :: "'a rx \<Rightarrow> 'a rx" where
  "rx_any k = rx_cls (\<lambda>c. c \<noteq> CHR 0x0A) k"

definition rx_any_star :: "'a rx \<Rightarrow> 'a rx" where
  "rx_any_star k = rx_rep (\<lambda>c. c \<noteq> CHR 0x0A) 0 None k"

text \<open>The patterns of \<open>skip_patterns\<close>, in their order; the last two start with \<open>^\<close>
  and can only match at the start of the line.\<close>

definition skip_patterns :: "(string \<Rightarrow> bool) list" where
  "skip_patterns =
     [found (rx_lit ''Empresa:'' rx_end),
      found (rx_chr CHR ''C'' (rx_any (rx_chr CHR ''N'' (rx_any (rx_chr CHR ''P'' (rx_any
              (rx_chr CHR ''J'' (rx_any rx_end)))))))),
      found (rx_lit (''Per'' @ [CHR 0xED] @ ''odo:'') rx_end),
      found (rx_lit (''Emiss'' @ [CHR 0xE3] @ ''o:'') rx_end),
      found (rx_lit ''Hora:'' rx_end),
      found (rx_lit ''Folha:'' rx_end),
      found (rx_lit ''CONSOLIDADO'' rx_end),
      found (rx_lit ''livro:'' rx_end),
      found (rx_lit (''C'' @ [CHR 0xF3] @ ''digo Classifica'' @ [CHR 0xE7, CHR 0xE3] @ ''o'') rx_end),
      found (rx_lit ''RESUMO DO BALANCETE'' rx_end),
      found (rx_lit ''CONTAS DEVEDORAS'' rx_end),
      found (rx_lit ''CONTAS CREDORAS'' rx_end),
      found (rx_lit ''RESULTADO DO MES'' rx_end),
      found (rx_lit (''RESULTADO DO EXERC'' @ [CHR 0xCD] @ ''CIO'') rx_end),
      found (rx_lit ''ATIVO'' (rx_any_star (rx_lit ''PASSIVO'' (rx_any_star (rx_lit ''RECEITAS'' rx_end))))),
      found (rx_lit ''Reg'' (rx_any (rx_lit '' no CRC'' rx_end))),
      found (rx_lit ''CPF:'' rx_end),
      (\<lambda>line. re_match (rx_lit ''BALANCETE'' (rx_eol rx_end)) line \<noteq> None),
      (\<lambda>line. re_match (rx_rep (\<lambda>c. c = CHR ''_'') 4 None rx_end) line \<noteq> None)]"

definition skip_line :: "string \<Rightarrow> bool" where
  "skip_line line =
     (if py_strip line = [] \<or> length (py_strip line) < 8 then True
      else list_ex (\<lambda>pattern. pattern line) skip_patterns)"

subsection \<open>\<open>clean_description\<close>\<close>

text \<open>\<open>[^\w\<Agrave>-\<uacute>\s\-,/().]\<close>: the characters replaced by a space.\<close>

definition bad_char :: "char \<Rightarrow> bool" where
  "bad_char c = (\<not> (re_word c \<or> in_range (CHR 0xC0) (CHR 0xFA) c \<or> py_isspace c \<or> c \<in> set ''-,/().''))"

text \<open>\<open>[w for i, w in enumerate(words) if len(w) > 2 or i == 0 or i == len(words) - 1]\<close>:
  \<open>i\<close> is the index of the head of the list.\<close>

fun clean_words_from :: "nat \<Rightarrow> nat \<Rightarrow> string list \<Rightarrow> string list" where
  "clean_words_from n i [] = []"
| "clean_words_from n i (w # ws) =
     (if length w > 2 \<or> i = 0 \<or> i = n - 1 then w # clean_words_from n (Suc i) ws
      else clean_words_from n (Suc i) ws)"

definition clean_description :: "string \<Rightarrow> py_error + string" where
  "clean_description text0 =
     (let text1 = re_sub (rx_cls bad_char (rx_const '' '')) text0;
          text2 = py_strip (re_sub rx_spaces text1);
          words = py_split text2
      in if length words \<ge> 2 then
           bind_res (py_index words 0) (\<lambda>w0.
           bind_res (py_index words (- 1)) (\<lambda>wl.
             let text3 = (if py_upper w0 = py_upper wl then wl else text2);
                 clean_words = clean_words_from (length words) 0 words;
                 text4 = (if clean_words \<noteq> [] then py_join '' '' clean_words else text3)
             in Inr (py_strip text4)))
         else Inr (py_strip text2))"

subsection \<open>\<open>extract_account_description\<close>\<close>

text \<open>\<open>^\d{1,6}\s*\<close> (replaced once), \<open>\b\d+\.\d+\b\<close> and \<open>\b\d{1,3}\b(?!\d)\<close>.\<close>

definition rx_code_prefix :: "string rx" where
  "rx_code_prefix = rx_rep re_digit 1 (Some 6) (rx_rep py_isspace 0 None rx_end)"

definition rx_loose_decimal :: "(string \<times> string) rx" where
  "rx_loose_decimal =
     rx_wordb (rx_rep re_digit 1 None (rx_chr CHR ''.'' (rx_rep re_digit 1 None
       (rx_wordb (rx_const '' '')))))"

definition rx_loose_number :: "(string \<times> string) rx" where
  "rx_loose_number =
     rx_wordb (rx_rep re_digit 1 (Some 3) (rx_wordb (rx_not_ahead re_digit (rx_const '' ''))))"

text \<open>\<open>for value in values: account = account.replace(value, ' ', 1)\<close>\<close>

fun remove_values :: "string list \<Rightarrow> string \<Rightarrow> string" where
  "remove_values [] acc = acc"
| "remove_values (v # vs) acc = remove_values vs (replace_first v '' '' acc)"

definition extract_account_description ::
  "string \<Rightarrow> string option \<Rightarrow> string option \<Rightarrow> string list \<Rightarrow> string" where
  "extract_account_description line code_v classification_v vals =
     (let account1 = (if \<not> falsy code_v
                      then (case re_match rx_code_prefix line of None \<Rightarrow> line | Some r \<Rightarrow> r)
                      else line);
          account2 = (case classification_v of
                        None \<Rightarrow> account1
                      | Some c \<Rightarrow> if c = [] then account1 else replace_all c '' '' account1);
          account3 = remove_values vals account2;
          account4 = re_sub rx_loose_decimal account3
      in re_sub rx_loose_number account4)"

subsection \<open>\<open>parse_entry_line\<close>\<close>

text \<open>\<open>-?\d{1,3}(?:\.\d{3})*,\d{2}\<close>\<close>

definition rx_value :: "'a rx \<Rightarrow> 'a rx" where
  "rx_value k =
     rx_rep (\<lambda>c. c = CHR ''-'') 0 (Some 1)
       (rx_rep re_digit 1 (Some 3)
         (rx_star (\<lambda>k'. rx_chr CHR ''.'' (rx_rep re_digit 3 (Some 3) k'))
           (rx_chr CHR '','' (rx_cls re_digit (rx_cls re_digit k)))))"

text \<open>\<open>^(\d{1,6})(?:\s|[A-Z\<Agrave>-\<Uacute>])\<close>: the result is group 1.\<close>

definition rx_entry_code :: "string rx" where
  "rx_entry_code prev s =
     rx_rep re_digit 1 (Some 6) (\<lambda>p r.
       rx_cls (\<lambda>c. py_isspace c \<or> in_range CHR ''A'' CHR ''Z'' c \<or> in_range (CHR 0xC0) (CHR 0xDA) c)
         (\<lambda>p' r'. Some (take (length s - length r) s)) p r) prev s"

text \<open>\<open>\b(\d{1,2}\.\d{1,2}(?:\.\d{1,3}){1,})\b\<close>\<close>

definition rx_dot_group :: "'a rx \<Rightarrow> 'a rx" where
  "rx_dot_group k = rx_chr CHR ''.'' (rx_rep re_digit 1 (Some 3) k)"

definition rx_class_pattern :: "string rx" where
  "rx_class_pattern =
     rx_wordb (rx_rep re_digit 1 (Some 2) (rx_chr CHR ''.'' (rx_rep re_digit 1 (Some 2)
       (rx_dot_group (rx_star rx_dot_group (rx_wordb rx_end))))))"

text \<open>\<open>max(xs, key=f)\<close>: the first element whose key is the largest; \<open>ValueError\<close> on
  an empty list.\<close>

fun max_by_from :: "('a \<Rightarrow> nat) \<Rightarrow> 'a \<Rightarrow> 'a list \<Rightarrow> 'a" where
  "max_by_from f best [] = best"
| "max_by_from f best (x # xs) = (if f x > f best then max_by_from f x xs else max_by_from f best xs)"

definition py_max_by :: "('a \<Rightarrow> nat) \<Rightarrow> 'a list \<Rightarrow> py_error + 'a" where
  "py_max_by f xs = (case xs of [] \<Rightarrow> Inl ValueError | x # rest \<Rightarrow> Inr (max_by_from f x rest))"

definition entry_classification :: "string \<Rightarrow> py_error + string option" where
  "entry_classification line =
     (let class_matches = re_findall rx_class_pattern line in
      if class_matches \<noteq> [] then
        (let valid_classifications =
               filter (\<lambda>c. length c \<le> 20 \<and> py_count CHR ''.'' c \<ge> 2) class_matches
         in if valid_classifications \<noteq> [] then
              bind_res (py_max_by (py_count CHR ''.'') valid_classifications) (\<lambda>c. Inr (Some c))
            else Inr None)
      else Inr None)"

text \<open>The \<open>if len(values) >= 4 ... elif ... == 1\<close> chain of \<open>parse_entry_line\<close>:
  (\<open>previous_balance\<close>, \<open>debit\<close>, \<open>credit\<close>, \<open>current_balance\<close>).\<close>

definition entry_slots ::
  "string list \<Rightarrow> py_error + (string option \<times> string option \<times> string option \<times> string option)" where
  "entry_slots vals =
     (if length vals \<ge> 4 then
        bind_res (py_index vals (- 4)) (\<lambda>pb.
        bind_res (py_index vals (- 3)) (\<lambda>d.
        bind_res (py_index vals (- 2)) (\<lambda>c.
        bind_res (py_index vals (- 1)) (\<lambda>cb. Inr (Some pb, Some d, Some c, Some cb)))))
      else if length vals = 3 then
        bind_res (py_index vals 0) (\<lambda>pb.
        bind_res (py_index vals 1) (\<lambda>d.
        bind_res (py_index vals 2) (\<lambda>cb. Inr (Some pb, Some d, None, Some cb))))
      else if length vals = 2 then
        bind_res (py_index vals 0) (\<lambda>d.
        bind_res (py_index vals 1) (\<lambda>cb. Inr (None, Some d, None, Some cb)))
      else if length vals = 1 then
        bind_res (py_index vals 0) (\<lambda>cb. Inr (None, None, None, Some cb))
      else Inr (None, None, None, None))"

definition parse_entry_line :: "string \<Rightarrow> py_error + entry option" where
  "parse_entry_line line0 =
     (let line = py_strip line0;
          vals = re_findall (rx_value rx_end) line
      in if vals = [] then Inr None
         else
           let code_v = re_match rx_entry_code line in
           bind_res (entry_classification line) (\<lambda>classification_v.
           let account0 = extract_account_description line code_v classification_v vals in
           if account0 = [] \<or> length account0 < 2 then Inr None
           else
             bind_res (clean_description account0) (\<lambda>account_v.
             bind_res (entry_slots vals) (\<lambda>(pb, d, c, cb).
               Inr (Some \<lparr>code = code_v, classification = classification_v, account = account_v,
                          previous_balance = pb, current_balance = cb, debit = d, credit = c,
                          parent_category = None\<rparr>)))))"

subsection \<open>\<open>is_category\<close> and \<open>extract_data\<close>\<close>

definition is_category :: "entry \<Rightarrow> bool" where
  "is_category e =
     (if account e = [] then False
      else
        let is_upper = py_isupper (account e);
            is_short = (length (py_split (account e)) \<le> 6);
            simple_class = (falsy (classification e) \<or> py_count CHR ''.'' (the (classification e)) \<le> 2)
        in is_upper \<and> is_short \<and> simple_class)"

text \<open>The state of the loop of \<open>extract_data\<close>: \<open>current_parent\<close> and \<open>entries\<close>.\<close>

record data_state =
  current_parent :: "string option"
  entries :: "entry list"

text \<open>The body of the loop, for one line.\<close>

definition extract_step :: "data_state \<Rightarrow> string \<Rightarrow> py_error + data_state" where
  "extract_step st line =
     (if skip_line line then Inr st
      else
        bind_res (parse_entry_line line) (\<lambda>r.
          case r of
            None \<Rightarrow> Inr st
          | Some e \<Rightarrow>
              if is_category e
              then Inr \<lparr>current_parent = Some (account e), entries = entries st @ [e]\<rparr>
              else Inr (st\<lparr>entries := entries st @ [e\<lparr>parent_category := current_parent st\<rparr>]\<rparr>)))"

fun extract_loop :: "data_state \<Rightarrow> string list \<Rightarrow> py_error + data_state" where
  "extract_loop st [] = Inr st"
| "extract_loop st (line # rest) =
     (case extract_step st line of Inl err \<Rightarrow> Inl err | Inr st' \<Rightarrow> extract_loop st' rest)"

definition extract_data :: "string \<Rightarrow> py_error + entry list" where
  "extract_data txt =
     bind_res (extract_loop \<lparr>current_parent = None, entries = []\<rparr> (split_on CHR 0x0A [] txt))
       (\<lambda>st. Inr (entries st))"

section \<open>The document pass of \<open>extract_pdf.py\<close>\<close>

text \<open>
  A character of \<open>page.chars\<close>, with the two keys the loop reads: \<open>text\<close> and \<open>top\<close>. A
  coordinate is a finite floating-point number, that is, a rational number; \<open>int(x)\<close>
  truncates it towards zero.
\<close>

record pchar =
  ctext :: string
  ctop :: rat

definition py_int :: "rat \<Rightarrow> int" where
  "py_int q = (if 0 \<le> q then \<lfloor>q\<rfloor> else \<lceil>q\<rceil>)"

text \<open>
  A page: the text of \<open>page.extract_text()\<close>, \<open>page.chars\<close>, and the dictionary that
  \<open>extract_bold_categories\<close> computes from the characters' fonts and floating-point
  positions, in the order of its items; the properties below hold for every such
  dictionary.
\<close>

record page =
  ptext :: string
  pchars :: "pchar list"
  bold_categories :: "(int \<times> string) list"

text \<open>The state of the loop: the stack \<open>parent_categories\<close> and the list \<open>all_data\<close>.\<close>

record pdf_state =
  parent_categories :: "string list"
  all_data :: "entry list"

text \<open>The first character whose text starts as the line does gives \<open>line_y\<close>.\<close>

fun find_line_y :: "string \<Rightarrow> pchar list \<Rightarrow> rat option" where
  "find_line_y line [] = None"
| "find_line_y line (ch # rest) =
     (if ctext ch \<noteq> [] \<and> line \<noteq> [] \<and> hd (ctext ch) = hd line then Some (ctop ch)
      else find_line_y line rest)"

text \<open>The two nested conditions on \<open>cleaned_bold\<close> and the test for a classification.\<close>

definition bold_matches :: "string \<Rightarrow> string \<Rightarrow> bool" where
  "bold_matches line cleaned_bold =
     (cleaned_bold \<noteq> [] \<and> length cleaned_bold > 5 \<and>
      (sublist (py_upper cleaned_bold) (py_upper line) \<or>
       (length cleaned_bold > 10 \<and> sublist (py_upper (take 15 cleaned_bold)) (py_upper line))) \<and>
      \<not> found rx_class5_b line)"

text \<open>\<open>[c for c in parent_categories if not name.upper().startswith(c.upper())]\<close>, then
  \<open>append(name)\<close>.\<close>

definition push_category :: "string list \<Rightarrow> string \<Rightarrow> string list" where
  "push_category stack name =
     filter (\<lambda>c. \<not> prefix (py_upper c) (py_upper name)) stack @ [name]"

text \<open>The record of a category line: \<open>parent_category\<close> is set to \<open>None\<close>.\<close>

definition category_records :: "entry option \<Rightarrow> entry list" where
  "category_records r = (case r of None \<Rightarrow> [] | Some e \<Rightarrow> [e\<lparr>parent_category := None\<rparr>])"

text \<open>The loop over \<open>bold_categories.items()\<close>; the result says whether \<open>is_category\<close>
  was set (the loop then stops).\<close>

fun bold_loop ::
  "string \<Rightarrow> int \<Rightarrow> (int \<times> string) list \<Rightarrow> pdf_state \<Rightarrow> py_error + (pdf_state \<times> bool)" where
  "bold_loop line y [] st = Inr (st, False)"
| "bold_loop line y ((bold_y, bold_text) # rest) st =
     (if \<bar>y - bold_y\<bar> < 5 then
        (case clean_account_name_final bold_text of
           Inl err \<Rightarrow> Inl err
         | Inr cleaned_bold \<Rightarrow>
             if bold_matches line cleaned_bold then
               (case parse_data_line line of
                  Inl err \<Rightarrow> Inl err
                | Inr r \<Rightarrow>
                    Inr (\<lparr>parent_categories = push_category (parent_categories st) cleaned_bold,
                          all_data = all_data st @ category_records r\<rparr>, True))
             else bold_loop line y rest st)
      else bold_loop line y rest st)"

text \<open>The record of a line that is not a category: the top of the stack is its parent.\<close>

definition detail_records :: "string list \<Rightarrow> entry option \<Rightarrow> py_error + entry list" where
  "detail_records stack r =
     (case r of
        None \<Rightarrow> Inr []
      | Some e \<Rightarrow>
          if stack \<noteq> [] then bind_res (py_index stack (- 1)) (\<lambda>top. Inr [e\<lparr>parent_category := Some top\<rparr>])
          else Inr [e])"

text \<open>The body of the loop over the lines of a page.\<close>

definition pdf_line_step :: "page \<Rightarrow> pdf_state \<Rightarrow> string \<Rightarrow> py_error + pdf_state" where
  "pdf_line_step pg st line0 =
     (let line = py_strip line0 in
      if line = [] \<or> length line < 3 then Inr st
      else if has_keyword skip_keywords line then Inr st
      else
        bind_res (case find_line_y line (pchars pg) of
                    None \<Rightarrow> Inr (st, False)
                  | Some line_y \<Rightarrow> bold_loop line (py_int line_y) (bold_categories pg) st)
          (\<lambda>(st1, is_cat).
             if \<not> is_cat then
               bind_res (parse_data_line line) (\<lambda>r.
               bind_res (detail_records (parent_categories st1) r) (\<lambda>new.
                 Inr (st1\<lparr>all_data := all_data st1 @ new\<rparr>)))
             else Inr st1))"

fun pdf_lines :: "page \<Rightarrow> pdf_state \<Rightarrow> string list \<Rightarrow> py_error + pdf_state" where
  "pdf_lines pg st [] = Inr st"
| "pdf_lines pg st (line # rest) =
     (case pdf_line_step pg st line of Inl err \<Rightarrow> Inl err | Inr st' \<Rightarrow> pdf_lines pg st' rest)"

text \<open>The loop over the pages; a page with no text is passed over.\<close>

fun pdf_pages :: "pdf_state \<Rightarrow> page list \<Rightarrow> py_error + pdf_state" where
  "pdf_pages st [] = Inr st"
| "pdf_pages st (pg # rest) =
     (if ptext pg = [] then pdf_pages st rest
      else case pdf_lines pg st (split_on CHR 0x0A [] (ptext pg)) of
             Inl err \<Rightarrow> Inl err
           | Inr st' \<Rightarrow> pdf_pages st' rest)"

definition extract_data_from_pdf :: "page list \<Rightarrow> py_error + entry list" where
  "extract_data_from_pdf pages =
     bind_res (pdf_pages \<lparr>parent_categories = [], all_data = []\<rparr> pages) (\<lambda>st. Inr (all_data st))"

section \<open>\<open>extract_pdf_v3.py\<close>\<close>

subsection \<open>\<open>clean_account_name\<close>\<close>

definition ascii_letter :: "char \<Rightarrow> bool" where
  "ascii_letter c = (in_range CHR ''A'' CHR ''Z'' c \<or> in_range CHR ''a'' CHR ''z'' c)"

text \<open>\<open>([A-Za-z])(\d+)(\s|$)\<close> replaced by \<open>\1\3\<close>.\<close>

definition rx_letter_digits_end :: "(string \<times> string) rx" where
  "rx_letter_digits_end prev s =
     rx_cls ascii_letter (\<lambda>p1 r1.
       rx_rep re_digit 1 None (\<lambda>p2 r2.
         (let k3 = (\<lambda>p3 r3. Some (take 1 s @ take (length r2 - length r3) r2, r3))
          in rx_alt (rx_cls py_isspace k3) (rx_eol k3) p2 r2))
       p1 r1) prev s"

text \<open>\<open>(L)(\d)(L)\<close> and \<open>(L)(\d+)(L)\<close> for a class \<open>L\<close> of letters, replaced by \<open>\1\3\<close>.\<close>

definition rx_digit_between :: "(char \<Rightarrow> bool) \<Rightarrow> (string \<times> string) rx" where
  "rx_digit_between L prev s =
     rx_cls L (rx_cls re_digit (\<lambda>p2 r2. rx_cls L (\<lambda>p3 r3. Some (take 1 s @ take 1 r2, r3)) p2 r2)) prev s"

definition rx_digits_between :: "(char \<Rightarrow> bool) \<Rightarrow> (string \<times> string) rx" where
  "rx_digits_between L prev s =
     rx_cls L (rx_rep re_digit 1 None (\<lambda>p2 r2. rx_cls L (\<lambda>p3 r3. Some (take 1 s @ take 1 r2, r3)) p2 r2)) prev s"

text \<open>
  The loop over \<open>protected\<close>: the pieces \<open>name[last_end:start]\<close> and \<open>code\<close> of every
  match, then \<open>name[last_end:]\<close>; \<open>''.join\<close> puts them together.
\<close>

fun reassemble :: "(nat \<times> nat \<times> string) list \<Rightarrow> nat \<Rightarrow> string \<Rightarrow> string list" where
  "reassemble [] last_end name = [drop last_end name]"
| "reassemble ((start, stop, c) # rest) last_end name =
     drop last_end (take start name) # c # reassemble rest stop name"

definition clean_account_name_v3 :: "string \<Rightarrow> string" where
  "clean_account_name_v3 name =
     (if name = [] then []
      else
        let name1 = (case re_match rx_leading_code name of None \<Rightarrow> name | Some r \<Rightarrow> r);
            name2 = re_sub rx_letter_digits_end name1;
            protected = re_finditer (rx_class5 rx_end) name2;
            name3 = concat (reassemble protected 0 name2);
            name4 = re_sub (rx_digit_between latin_letter) name3;
            name5 = re_sub rx_spaces name4
        in py_strip name5)"

subsection \<open>\<open>parse_data_line\<close>\<close>

text \<open>The list of \<open>extract_pdf.py\<close> without its last keyword, \<open>FOLHA:\<close>.\<close>

definition skip_keywords_v3 :: "string list" where
  "skip_keywords_v3 = butlast skip_keywords"

definition parse_data_line_v3 :: "string \<Rightarrow> py_error + entry option" where
  "parse_data_line_v3 line0 =
     (if line0 = [] \<or> length (py_strip line0) < 3 then Inr None
      else
        let line = py_strip line0 in
        if has_keyword skip_keywords_v3 line then Inr None
        else
          let monetary_matches = re_finditer (rx_monetary rx_end) line in
          if monetary_matches = [] then
            (if length line > 10 then
               (let cleaned_account = clean_account_name_v3 line in
                if cleaned_account \<noteq> [] then Inr (Some (bare_entry cleaned_account)) else Inr None)
             else Inr None)
          else
            let monetary_values = map (\<lambda>(a, b, t). t) monetary_matches;
                value_positions = monetary_matches
            in
            bind_res (py_index value_positions 0) (\<lambda>(vstart, vend, vtext).
            let parts_before_values = py_strip (take vstart line) in
            bind_res (code_and_classification (rx_class5 rx_end) parts_before_values)
              (\<lambda>(code_v, classification_v, account_start_idx).
            let account_text = py_strip (drop account_start_idx parts_before_values);
                account_v = clean_account_name_v3 account_text
            in
            if account_v = [] then Inr None
            else
              bind_res (assign_slots monetary_values) (\<lambda>(pb, d, c, cb).
                Inr (Some \<lparr>code = or_none code_v, classification = or_none classification_v,
                           account = account_v, previous_balance = or_none pb,
                           current_balance = or_none cb, debit = or_none d, credit = or_none c,
                           parent_category = None\<rparr>)))))"

subsection \<open>The document pass\<close>

text \<open>
  A page: the text of \<open>page.extract_text()\<close> and the lines that
  \<open>reconstruct_text_from_chars\<close> builds from the characters' floating-point positions,
  each with its rounded position and its bold flag; the properties below hold for
  every such list.
\<close>

record page_v3 =
  ptext_v3 :: string
  reconstructed_lines :: "(string \<times> int \<times> bool) list"

text \<open>The nested conditions under which the loop takes a line for a category: it is
  bold, holds no \<open>\d+\.\d+\.\d+\.\d+\.\d+\<close>, and its cleaned text has more than 5
  characters.\<close>

definition is_category_v3 :: "string \<Rightarrow> bool \<Rightarrow> bool" where
  "is_category_v3 line_text is_bold =
     (is_bold \<and> \<not> found (rx_class5 rx_end) line_text \<and>
      clean_account_name_v3 line_text \<noteq> [] \<and> length (clean_account_name_v3 line_text) > 5)"

definition line_step_v3 :: "pdf_state \<Rightarrow> string \<times> int \<times> bool \<Rightarrow> py_error + pdf_state" where
  "line_step_v3 st item =
     (case item of (line_text, y_pos, is_bold) \<Rightarrow>
      if line_text = [] \<or> length (py_strip line_text) < 3 then Inr st
      else if has_keyword skip_keywords line_text then Inr st
      else if is_category_v3 line_text is_bold then
        bind_res (parse_data_line_v3 line_text) (\<lambda>r.
          Inr \<lparr>parent_categories =
                 push_category (parent_categories st) (clean_account_name_v3 line_text),
               all_data = all_data st @ category_records r\<rparr>)
      else
        bind_res (parse_data_line_v3 line_text) (\<lambda>r.
        bind_res (detail_records (parent_categories st) r) (\<lambda>new.
          Inr (st\<lparr>all_data := all_data st @ new\<rparr>))))"

fun lines_v3 :: "pdf_state \<Rightarrow> (string \<times> int \<times> bool) list \<Rightarrow> py_error + pdf_state" where
  "lines_v3 st [] = Inr st"
| "lines_v3 st (item # rest) =
     (case line_step_v3 st item of Inl err \<Rightarrow> Inl err | Inr st' \<Rightarrow> lines_v3 st' rest)"

fun pages_v3 :: "pdf_state \<Rightarrow> page_v3 list \<Rightarrow> py_error + pdf_state" where
  "pages_v3 st [] = Inr st"
| "pages_v3 st (pg # rest) =
     (if ptext_v3 pg = [] then pages_v3 st rest
      else case lines_v3 st (reconstructed_lines pg) of
             Inl err \<Rightarrow> Inl err
           | Inr st' \<Rightarrow> pages_v3 st' rest)"

definition extract_data_from_pdf_v3 :: "page_v3 list \<Rightarrow> py_error + entry list" where
  "extract_data_from_pdf_v3 pages =
     bind_res (pages_v3 \<lparr>parent_categories = [], all_data = []\<rparr> pages) (\<lambda>st. Inr (all_data st))"

section \<open>\<open>extract_pdf_final.py\<close>\<close>

text \<open>\<open>clean_text\<close>: \<open>[\x00-\x1f\x7f-\x9f]\<close> removed, \<open>\s+\<close> replaced by a space, stripped.\<close>

definition control_char :: "char \<Rightarrow> bool" where
  "control_char c = (in_range (CHR 0x00) (CHR 0x1F) c \<or> in_range (CHR 0x7F) (CHR 0x9F) c)"

definition clean_text :: "string \<Rightarrow> string" where
  "clean_text s =
     (if s = [] then []
      else py_strip (re_sub rx_spaces (re_sub (rx_cls control_char (rx_const [])) s)))"

text \<open>\<open>clean_account_name\<close>: \<open>^\d+\s+\<close> removed, then \<open>([A-Za-z])(\d+)([A-Za-z])\<close> and
  \<open>([A-Za-z])(\d)([A-Za-z])\<close> replaced by \<open>\1\3\<close>.\<close>

definition rx_leading_number :: "string rx" where
  "rx_leading_number = rx_rep re_digit 1 None (rx_rep py_isspace 1 None rx_end)"

definition clean_account_name_fin :: "string \<Rightarrow> string" where
  "clean_account_name_fin name =
     (if name = [] then []
      else
        let name1 = (case re_match rx_leading_number name of None \<Rightarrow> name | Some r \<Rightarrow> r);
            name2 = re_sub (rx_digits_between ascii_letter) name1;
            name3 = re_sub (rx_digit_between ascii_letter) name2;
            name4 = re_sub rx_spaces name3
        in py_strip name4)"

text \<open>The keywords of \<open>parse_data_line\<close>: those of \<open>extract_pdf.py\<close> without the last two.\<close>

definition skip_keywords_fin :: "string list" where
  "skip_keywords_fin = butlast (butlast skip_keywords)"

definition parse_data_line_fin :: "string \<Rightarrow> py_error + entry option" where
  "parse_data_line_fin line0 =
     (if line0 = [] \<or> length (py_strip line0) < 5 then Inr None
      else
        let line = clean_text line0 in
        if has_keyword skip_keywords_fin line then Inr None
        else
          let monetary_matches = re_finditer (rx_monetary rx_end) line in
          if monetary_matches = [] then
            (if length line > 15 then Inr (Some (bare_entry (clean_account_name_fin line)))
             else Inr None)
          else
            let monetary_values = map (\<lambda>(a, b, t). t) monetary_matches;
                value_positions = monetary_matches
            in
            bind_res (py_index value_positions 0) (\<lambda>(vstart, vend, vtext).
            bind_res (py_index value_positions (- 1)) (\<lambda>(lstart, lend, ltext).
            let parts_before_values = py_strip (take vstart line);
                parts_after_values = py_strip (drop lend line)
            in
            bind_res (code_and_classification (rx_class5 rx_end) parts_before_values)
              (\<lambda>(code_v, classification_v, account_start_idx).
            let account_text0 = py_strip (drop account_start_idx parts_before_values);
                account_text = (if account_text0 = [] \<and> parts_after_values \<noteq> []
                                then parts_after_values else account_text0);
                account_v = clean_account_name_fin account_text
            in
            if account_v = [] then Inr None
            else
              bind_res (assign_slots monetary_values) (\<lambda>(pb, d, c, cb).
                Inr (Some \<lparr>code = or_none code_v, classification = or_none classification_v,
                           account = account_v, previous_balance = or_none pb,
                           current_balance = or_none cb, debit = or_none d, credit = or_none c,
                           parent_category = None\<rparr>))))))"

section \<open>\<open>extract_pdf_v2.py\<close>\<close>

text \<open>\<open>[\d\.]+,\d{2}|[\d]+,\d{2}\<close>\<close>

definition rx_monetary_v2 :: "'a rx \<Rightarrow> 'a rx" where
  "rx_monetary_v2 k =
     rx_alt (rx_monetary k)
            (rx_rep re_digit 1 None (rx_chr CHR '','' (rx_cls re_digit (rx_cls re_digit k))))"

text \<open>\<open>re.split\<close>: the pieces of the string between the matches.\<close>

fun split_pieces :: "(nat \<times> nat \<times> string) list \<Rightarrow> nat \<Rightarrow> string \<Rightarrow> string list" where
  "split_pieces [] last_end s = [drop last_end s]"
| "split_pieces ((a, b, t) # rest) last_end s = drop last_end (take a s) # split_pieces rest b s"

definition re_split :: "string rx \<Rightarrow> string \<Rightarrow> string list" where
  "re_split m s = split_pieces (re_finditer m s) 0 s"

text \<open>
  The loop \<open>for match in re.finditer(monetary_pattern, remaining)\<close>: the matches are
  those of the line, while \<open>remaining\<close> is cut after each of them.
\<close>

fun split_around :: "(nat \<times> nat \<times> string) list \<Rightarrow> string list \<Rightarrow> string \<Rightarrow> string list \<times> string" where
  "split_around [] parts remaining = (parts, remaining)"
| "split_around ((a, b, t) # rest) parts remaining =
     split_around rest
       ((if py_strip (take a remaining) \<noteq> [] then parts @ py_split (py_strip (take a remaining))
         else parts) @ [t])
       (drop b remaining)"

text \<open>The first element with a property, with its index (a \<open>for ... break\<close> loop).\<close>

fun find_index_from :: "nat \<Rightarrow> ('a \<Rightarrow> bool) \<Rightarrow> 'a list \<Rightarrow> (nat \<times> 'a) option" where
  "find_index_from i P [] = None"
| "find_index_from i P (x # xs) = (if P x then Some (i, x) else find_index_from (Suc i) P xs)"

text \<open>\<open>[i for i, part in enumerate(parts) if P(part)]\<close>\<close>

fun indices_from :: "nat \<Rightarrow> ('a \<Rightarrow> bool) \<Rightarrow> 'a list \<Rightarrow> nat list" where
  "indices_from i P [] = []"
| "indices_from i P (x # xs) = (if P x then i # indices_from (Suc i) P xs else indices_from (Suc i) P xs)"

text \<open>\<open>^\d+\.\d+\.\d+\.\d+\.\d+$\<close>, \<open>^\d{4,6}$\<close>, \<open>^\d+\.\d+\<close> and the monetary pattern, each
  tried with \<open>re.match\<close>.\<close>

definition is_classification_part :: "string \<Rightarrow> bool" where
  "is_classification_part part = (re_match (rx_class5 (rx_eol rx_end)) part \<noteq> None)"

definition is_code_part :: "string \<Rightarrow> bool" where
  "is_code_part part = (re_match (rx_rep re_digit 4 (Some 6) (rx_eol rx_end)) part \<noteq> None)"

definition starts_dotted :: "string \<Rightarrow> bool" where
  "starts_dotted part =
     (re_match (rx_rep re_digit 1 None (rx_chr CHR ''.'' (rx_rep re_digit 1 None rx_end))) part \<noteq> None)"

definition is_monetary_part :: "string \<Rightarrow> bool" where
  "is_monetary_part part = (re_match (rx_monetary_v2 rx_end) part \<noteq> None)"

text \<open>\<open>parts[monetary_indices[k]]\<close>\<close>

definition part_at :: "string list \<Rightarrow> nat list \<Rightarrow> int \<Rightarrow> py_error + string option" where
  "part_at parts monetary_indices k =
     bind_res (py_index monetary_indices k) (\<lambda>i.
     bind_res (py_index parts (int i)) (\<lambda>v. Inr (Some v)))"

definition slots_v2 ::
  "string list \<Rightarrow> nat list \<Rightarrow>
   py_error + (string option \<times> string option \<times> string option \<times> string option)" where
  "slots_v2 parts monetary_indices =
     (if length monetary_indices \<ge> 4 then
        bind_res (part_at parts monetary_indices 0) (\<lambda>pb.
        bind_res (part_at parts monetary_indices 1) (\<lambda>d.
        bind_res (part_at parts monetary_indices 2) (\<lambda>c.
        bind_res (part_at parts monetary_indices 3) (\<lambda>cb. Inr (pb, d, c, cb)))))
      else if length monetary_indices = 3 then
        bind_res (part_at parts monetary_indices 0) (\<lambda>pb.
        bind_res (part_at parts monetary_indices 1) (\<lambda>d.
        bind_res (part_at parts monetary_indices 2) (\<lambda>c. Inr (pb, d, c, None))))
      else if length monetary_indices = 2 then
        bind_res (part_at parts monetary_indices 0) (\<lambda>pb.
        bind_res (part_at parts monetary_indices 1) (\<lambda>cb. Inr (pb, None, None, cb)))
      else Inr (None, None, None, None))"

text \<open>The list \<open>parts\<close> of a line that has monetary values.\<close>

definition line_parts :: "string \<Rightarrow> string list" where
  "line_parts line =
     (let parts0 = re_split (rx_rep py_isspace 2 None rx_end) line;
          parts1 =
            (if length parts0 < 3 then
               (case split_around (re_finditer (rx_monetary_v2 rx_end) line) [] line of
                  (ps, remaining) \<Rightarrow>
                    if py_strip remaining \<noteq> [] then ps @ py_split (py_strip remaining) else ps)
             else parts0)
      in map py_strip (filter (\<lambda>p. py_strip p \<noteq> []) parts1))"

text \<open>\<open>code\<close>, from \<open>classification_idx\<close> (\<open>None\<close> for \<open>-1\<close>).\<close>

definition code_v2 :: "string list \<Rightarrow> nat option \<Rightarrow> py_error + string option" where
  "code_v2 parts classification_idx =
     (case classification_idx of
        None \<Rightarrow>
          Inr (map_option snd
                 (find_index_from 0 (\<lambda>part. is_code_part part \<and> \<not> starts_dotted part) parts))
      | Some ci \<Rightarrow>
          if ci > 0 then
            bind_res (py_index parts (int ci - 1)) (\<lambda>potential_code.
              Inr (if is_code_part potential_code then Some potential_code else None))
          else Inr None)"

text \<open>\<open>start_idx\<close>: after the first part equal to the code, or else to the classification.\<close>

definition start_idx_v2 :: "string list \<Rightarrow> string option \<Rightarrow> string option \<Rightarrow> nat" where
  "start_idx_v2 parts code_v classification_v =
     (if \<not> falsy code_v then
        (case find_index_from 0 (\<lambda>part. Some part = code_v) parts of
           None \<Rightarrow> 0 | Some (i, x) \<Rightarrow> i + 1)
      else if \<not> falsy classification_v then
        (case find_index_from 0 (\<lambda>part. Some part = classification_v) parts of
           None \<Rightarrow> 0 | Some (i, x) \<Rightarrow> i + 1)
      else 0)"

definition parse_line :: "string \<Rightarrow> py_error + entry option" where
  "parse_line line0 =
     (if line0 = [] \<or> length (py_strip line0) < 5 then Inr None
      else
        let line = py_strip line0;
            monetary_values = re_findall (rx_monetary_v2 rx_end) line
        in
        if monetary_values = [] then
          (if length line > 20 \<and> \<not> found (rx_rep re_digit 4 None rx_end) line
           then Inr (Some (bare_entry (py_strip line))) else Inr None)
        else
          let parts = line_parts line in
          if length parts < 3 then Inr None
          else
            let classification_match = find_index_from 0 is_classification_part parts;
                classification_v = map_option snd classification_match;
                classification_idx = map_option fst classification_match
            in
            bind_res (code_v2 parts classification_idx) (\<lambda>code_v.
            let monetary_indices = indices_from 0 is_monetary_part parts in
            bind_res (slots_v2 parts monetary_indices) (\<lambda>(pb, d, c, cb).
            bind_res (if monetary_indices \<noteq> [] then py_index monetary_indices 0
                      else Inr (length parts)) (\<lambda>end_idx.
            let start_idx = start_idx_v2 parts code_v classification_v;
                account_parts = drop start_idx (take end_idx parts);
                account_v = py_strip (py_join '' '' account_parts)
            in
            if account_v = [] then Inr None
            else
              Inr (Some \<lparr>code = or_none code_v, classification = or_none classification_v,
                         account = account_v, previous_balance = or_none pb,
                         current_balance = or_none cb, debit = or_none d, credit = or_none c,
                         parent_category = None\<rparr>)))))"

section \<open>Predicates used to state the properties\<close>

text \<open>
  The parent that is current after a list of emitted records, starting from \<open>p\<close>: the
  account of the last category among them. \<open>tracks p new\<close>: every record of \<open>new\<close> that
  is not a category carries the parent that was current when it was emitted.
\<close>

fun parent_after :: "string option \<Rightarrow> entry list \<Rightarrow> string option" where
  "parent_after p [] = p"
| "parent_after p (e # es) = parent_after (if is_category e then Some (account e) else p) es"

fun tracks :: "string option \<Rightarrow> entry list \<Rightarrow> bool" where
  "tracks p [] = True"
| "tracks p (e # es) =
     (if is_category e then tracks (Some (account e)) es
      else parent_category e = p \<and> tracks p es)"

text \<open>The four monetary slots of a record, in the order of the report's columns.\<close>

definition slots_of :: "entry \<Rightarrow> string option \<times> string option \<times> string option \<times> string option" where
  "slots_of e = (previous_balance e, debit e, credit e, current_balance e)"

text \<open>The table of the specification (section 4.1): with four or more amounts, the last
  four.\<close>

definition spec_slot_table :: "string list \<Rightarrow> string option \<times> string option \<times> string option \<times> string option" where
  "spec_slot_table V =
     (let n = length V in
      if n = 1 then (None, None, None, Some (V ! 0))
      else if n = 2 then (Some (V ! 0), None, None, Some (V ! 1))
      else if n = 3 then (Some (V ! 0), Some (V ! 1), Some (V ! 2), None)
      else if n \<ge> 4 then (Some (V ! (n - 4)), Some (V ! (n - 3)), Some (V ! (n - 2)), Some (V ! (n - 1)))
      else (None, None, None, None))"

text \<open>What \<open>parse_data_line\<close> of \<open>extract_pdf.py\<close> assigns: with four or more amounts, the
  first four.\<close>

definition slot_table_extract_pdf :: "string list \<Rightarrow> string option \<times> string option \<times> string option \<times> string option" where
  "slot_table_extract_pdf V =
     (let n = length V in
      if n = 1 then (None, None, None, Some (V ! 0))
      else if n = 2 then (Some (V ! 0), None, None, Some (V ! 1))
      else if n = 3 then (Some (V ! 0), Some (V ! 1), Some (V ! 2), None)
      else if n \<ge> 4 then (Some (V ! 0), Some (V ! 1), Some (V ! 2), Some (V ! 3))
      else (None, None, None, None))"

text \<open>What \<open>parse_entry_line\<close> assigns: two amounts are debit and current balance, three
  are previous balance, debit and current balance.\<close>

definition slot_table_final_parser :: "string list \<Rightarrow> string option \<times> string option \<times> string option \<times> string option" where
  "slot_table_final_parser V =
     (let n = length V in
      if n = 1 then (None, None, None, Some (V ! 0))
      else if n = 2 then (None, Some (V ! 0), None, Some (V ! 1))
      else if n = 3 then (Some (V ! 0), Some (V ! 1), None, Some (V ! 2))
      else if n \<ge> 4 then (Some (V ! (n - 4)), Some (V ! (n - 3)), Some (V ! (n - 2)), Some (V ! (n - 1)))
      else (None, None, None, None))"

text \<open>The shape of a match of the monetary pattern.\<close>

definition money_token :: "string \<Rightarrow> bool" where
  "money_token t = (\<exists>run d1 d2. t = run @ [CHR '','', d1, d2] \<and> run \<noteq> [] \<and>
      list_all digit_or_dot run \<and> re_digit d1 \<and> re_digit d2)"


section \<open>Properties\<close>

subsection \<open>Indexing\<close>

lemma py_index_nat: "i < length xs \<Longrightarrow> py_index xs (int i) = Inr (xs ! i)"
  by (simp add: py_index_def)

lemma py_index_neg: "0 < k \<Longrightarrow> k \<le> length xs \<Longrightarrow> py_index xs (- int k) = Inr (xs ! (length xs - k))"
  by (auto simp: py_index_def nat_diff_distrib' of_nat_diff)

lemma py_index_0: "xs \<noteq> [] \<Longrightarrow> py_index xs 0 = Inr (hd xs)"
  using py_index_nat [of 0 xs] by (simp add: hd_conv_nth)

lemma py_index_last: "xs \<noteq> [] \<Longrightarrow> py_index xs (- 1) = Inr (last xs)"
  using py_index_neg [of 1 xs] by (cases xs) (auto simp: last_conv_nth)

subsection \<open>\<open>parse_entry_line\<close> raises nothing\<close>

lemma entry_slots_total: "\<exists>r. entry_slots vals = Inr r"
proof -
  consider "length vals \<ge> 4" | "length vals = 3" | "length vals = 2" | "length vals = 1" | "length vals = 0"
    by linarith
  then show ?thesis
  proof cases
    case 1
    then show ?thesis
      using py_index_neg [of 4 vals] py_index_neg [of 3 vals] py_index_neg [of 2 vals] py_index_neg [of 1 vals]
      by (simp add: entry_slots_def bind_res_def)
  next
    case 2
    then show ?thesis
      using py_index_nat [of 0 vals] py_index_nat [of 1 vals] py_index_nat [of 2 vals]
      by (simp add: entry_slots_def bind_res_def)
  next
    case 3
    then show ?thesis
      using py_index_nat [of 0 vals] py_index_nat [of 1 vals]
      by (simp add: entry_slots_def bind_res_def)
  next
    case 4
    then show ?thesis
      using py_index_nat [of 0 vals]
      by (simp add: entry_slots_def bind_res_def)
  next
    case 5
    then show ?thesis by (simp add: entry_slots_def)
  qed
qed

lemma entry_classification_total: "\<exists>r. entry_classification line = Inr r"
  by (auto simp: entry_classification_def Let_def bind_res_def py_max_by_def split: list.splits)

lemma clean_description_total: "\<exists>r. clean_description s = Inr r"
proof -
  have "length ws \<ge> 2 \<Longrightarrow> ws \<noteq> []" for ws :: "string list" by auto
  then show ?thesis
    by (auto simp: clean_description_def Let_def bind_res_def py_index_0 py_index_last)
qed

lemma parse_entry_line_total: "\<exists>r. parse_entry_line line = Inr r"
proof -
  obtain c where c: "entry_classification (py_strip line) = Inr c"
    using entry_classification_total by blast
  obtain sl where sl: "entry_slots (re_findall (rx_value rx_end) (py_strip line)) = Inr sl"
    using entry_slots_total by blast
  obtain a where a: "clean_description (extract_account_description (py_strip line)
      (re_match rx_entry_code (py_strip line)) c (re_findall (rx_value rx_end) (py_strip line))) = Inr a"
    using clean_description_total by blast
  show ?thesis
    by (cases sl) (simp add: parse_entry_line_def Let_def bind_res_def c sl a)
qed

lemma parse_entry_line_parent: "parse_entry_line line = Inr (Some e) \<Longrightarrow> parent_category e = None"
  by (auto simp: parse_entry_line_def Let_def bind_res_def split: if_splits sum.splits prod.splits)

subsection \<open>The single parent variable of \<open>extract_data\<close>\<close>

lemma parent_after_append: "parent_after p (a @ b) = parent_after (parent_after p a) b"
  by (induction a arbitrary: p) auto

lemma tracks_append: "tracks p (a @ b) = (tracks p a \<and> tracks (parent_after p a) b)"
  by (induction a arbitrary: p) auto

lemma parent_after_Some: "p \<noteq> None \<Longrightarrow> parent_after p new \<noteq> None"
  by (induction new arbitrary: p) auto

lemma tracks_Some:
  "p \<noteq> None \<Longrightarrow> tracks p new \<Longrightarrow> e \<in> set new \<Longrightarrow> \<not> is_category e \<Longrightarrow> parent_category e \<noteq> None"
  by (induction new arbitrary: p) (auto split: if_splits)

lemma is_category_parent: "is_category (e\<lparr>parent_category := p\<rparr>) = is_category e"
  by (simp add: is_category_def)

lemma extract_step_tracks:
  "\<exists>st' new. extract_step st line = Inr st' \<and> entries st' = entries st @ new \<and>
      tracks (current_parent st) new \<and> current_parent st' = parent_after (current_parent st) new"
proof (cases "skip_line line")
  case True
  then show ?thesis by (simp add: extract_step_def)
next
  case False
  obtain r where r: "parse_entry_line line = Inr r"
    using parse_entry_line_total by blast
  show ?thesis
  proof (cases r)
    case None
    with False r show ?thesis by (simp add: extract_step_def bind_res_def)
  next
    case (Some e)
    with False r show ?thesis
      by (cases "is_category e") (simp_all add: extract_step_def bind_res_def is_category_parent)
  qed
qed

lemma extract_loop_tracks:
  "\<exists>st' new. extract_loop st ls = Inr st' \<and> entries st' = entries st @ new \<and>
      tracks (current_parent st) new \<and> current_parent st' = parent_after (current_parent st) new"
proof (induction ls arbitrary: st)
  case Nil
  show ?case by simp
next
  case (Cons l ls)
  obtain st1 new1 where s1: "extract_step st l = Inr st1" "entries st1 = entries st @ new1"
      "tracks (current_parent st) new1" "current_parent st1 = parent_after (current_parent st) new1"
    using extract_step_tracks by blast
  obtain st2 new2 where s2: "extract_loop st1 ls = Inr st2" "entries st2 = entries st1 @ new2"
      "tracks (current_parent st1) new2" "current_parent st2 = parent_after (current_parent st1) new2"
    using Cons.IH by blast
  have "extract_loop st (l # ls) = Inr st2" using s1 s2 by simp
  moreover have "entries st2 = entries st @ (new1 @ new2)" using s1 s2 by simp
  moreover have "tracks (current_parent st) (new1 @ new2)" using s1 s2 by (simp add: tracks_append)
  moreover have "current_parent st2 = parent_after (current_parent st) (new1 @ new2)"
    using s1 s2 by (simp add: parent_after_append)
  ultimately show ?case by blast
qed

text \<open>
  C9. The loop of \<open>extract_data\<close> always runs to its end. The records it appends carry,
  when they are not categories, the account of the most recent category before them (the
  value of the one variable \<open>current_parent\<close>, which only ever changes to the account of
  a new category); once the variable is set it stays set, and no later record that is
  not a category has a null \<open>parent_category\<close>.
\<close>

theorem extract_loop_single_parent:
  "\<exists>st' new. extract_loop st ls = Inr st' \<and> entries st' = entries st @ new \<and>
      tracks (current_parent st) new \<and>
      current_parent st' = parent_after (current_parent st) new \<and>
      (current_parent st \<noteq> None \<longrightarrow>
         current_parent st' \<noteq> None \<and>
         (\<forall>e \<in> set new. \<not> is_category e \<longrightarrow> parent_category e \<noteq> None))"
proof -
  obtain st' new where h: "extract_loop st ls = Inr st'" "entries st' = entries st @ new"
      "tracks (current_parent st) new" "current_parent st' = parent_after (current_parent st) new"
    using extract_loop_tracks by blast
  have "current_parent st \<noteq> None \<longrightarrow> current_parent st' \<noteq> None \<and>
         (\<forall>e \<in> set new. \<not> is_category e \<longrightarrow> parent_category e \<noteq> None)"
    using h parent_after_Some tracks_Some by metis
  with h show ?thesis by blast
qed

theorem extract_loop_single_parent_witness:
  "\<exists>st'. extract_loop \<lparr>current_parent = Some ''ATIVO'', entries = []\<rparr>
            [''Caixa 2,00'', ''PASSIVO 1,00'', ''Bancos 3,00''] = Inr st' \<and>
         current_parent st' = Some ''PASSIVO'' \<and>
         map parent_category (entries st') = [Some ''ATIVO'', None, Some ''PASSIVO'']"
proof -
  have ev: "extract_loop \<lparr>current_parent = Some ''ATIVO'', entries = []\<rparr>
              [''Caixa 2,00'', ''PASSIVO 1,00'', ''Bancos 3,00'']
            = Inr \<lparr>current_parent = Some ''PASSIVO'', entries =
                [\<lparr>code = None, classification = None, account = ''Caixa'', previous_balance = None,
                  current_balance = Some ''2,00'', debit = None, credit = None,
                  parent_category = Some ''ATIVO''\<rparr>,
                 \<lparr>code = None, classification = None, account = ''PASSIVO'', previous_balance = None,
                  current_balance = Some ''1,00'', debit = None, credit = None,
                  parent_category = None\<rparr>,
                 \<lparr>code = None, classification = None, account = ''Bancos'', previous_balance = None,
                  current_balance = Some ''3,00'', debit = None, credit = None,
                  parent_category = Some ''PASSIVO''\<rparr>]\<rparr>"
    by code_simp
  show ?thesis
    using extract_loop_single_parent [of "\<lparr>current_parent = Some ''ATIVO'', entries = []\<rparr>"
        "[''Caixa 2,00'', ''PASSIVO 1,00'', ''Bancos 3,00'']"] ev
    by simp
qed

subsection \<open>Matchers\<close>

lemma rx_try_Some: "rx_try lo hi f = Some a \<Longrightarrow> \<exists>j. lo \<le> j \<and> j \<le> hi \<and> f j = Some a"
proof (induction hi)
  case 0
  then show ?case by (auto split: if_splits)
next
  case (Suc h)
  show ?case
  proof (cases "f (Suc h)")
    case None
    with Suc.prems have "rx_try lo h f = Some a" by (auto split: if_splits)
    with Suc.IH obtain j where "lo \<le> j" "j \<le> h" "f j = Some a" by blast
    then show ?thesis by (intro exI [of _ j]) simp
  next
    case (Some b)
    with Suc.prems have "Suc h \<ge> lo" "b = a" by (auto split: if_splits)
    with Some show ?thesis by (intro exI [of _ "Suc h"]) simp
  qed
qed

lemma rx_try_first: "lo \<le> hi \<Longrightarrow> f hi = Some a \<Longrightarrow> rx_try lo hi f = Some a"
  by (cases hi) auto

lemma rx_cls_Some:
  "rx_cls P k prev s = Some a \<Longrightarrow> \<exists>c cs. s = c # cs \<and> P c \<and> k (Some c) cs = Some a"
  by (cases s) (auto simp: rx_cls_def split: if_splits)

lemma rx_chr_Some:
  "rx_chr c k prev s = Some a \<Longrightarrow> \<exists>cs. s = c # cs \<and> k (Some c) cs = Some a"
  by (auto simp: rx_chr_def dest: rx_cls_Some)

lemma take_takeWhile_all: "j \<le> length (takeWhile P s) \<Longrightarrow> list_all P (take j s)"
proof (induction s arbitrary: j)
  case Nil
  then show ?case by simp
next
  case (Cons c cs)
  then show ?case by (cases j) (auto split: if_splits)
qed

lemma rx_try_le: "rx_try lo n f = Some a \<Longrightarrow> n \<le> b \<Longrightarrow> \<exists>m. m \<le> (b::nat) \<and> rx_try lo m f = Some a"
  by (rule exI [of _ n]) simp

lemma rx_rep_try:
  assumes "rx_rep P lo hi k prev s = Some a"
  shows "\<exists>m. m \<le> length (takeWhile P s) \<and>
             rx_try lo m (\<lambda>j. k (prev_after prev s j) (drop j s)) = Some a"
proof (cases hi)
  case None
  with assms have "rx_try lo (length (takeWhile P s))
      (\<lambda>j. k (prev_after prev s j) (drop j s)) = Some a"
    by (simp add: rx_rep_def Let_def)
  then show ?thesis by (rule rx_try_le) simp
next
  case (Some h)
  with assms have "rx_try lo (min h (length (takeWhile P s)))
      (\<lambda>j. k (prev_after prev s j) (drop j s)) = Some a"
    by (simp add: rx_rep_def Let_def)
  then show ?thesis by (rule rx_try_le) simp
qed

lemma rx_rep_Some:
  assumes "rx_rep P lo hi k prev s = Some a"
  shows "\<exists>j. lo \<le> j \<and> j \<le> length s \<and> list_all P (take j s) \<and>
             k (prev_after prev s j) (drop j s) = Some a"
proof -
  from rx_rep_try [OF assms] obtain m where
    m: "m \<le> length (takeWhile P s) \<and> rx_try lo m (\<lambda>j. k (prev_after prev s j) (drop j s)) = Some a" ..
  from m have "rx_try lo m (\<lambda>j. k (prev_after prev s j) (drop j s)) = Some a" by (rule conjunct2)
  from rx_try_Some [OF this] obtain j where
    j: "lo \<le> j \<and> j \<le> m \<and> k (prev_after prev s j) (drop j s) = Some a" ..
  from j m have jn: "j \<le> length (takeWhile P s)" by simp
  then have "list_all P (take j s)" by (rule take_takeWhile_all)
  moreover have "j \<le> length s" using jn length_takeWhile_le [of P s] by simp
  ultimately have "lo \<le> j \<and> j \<le> length s \<and> list_all P (take j s) \<and>
             k (prev_after prev s j) (drop j s) = Some a"
    using j by simp
  then show ?thesis ..
qed

lemma rx_rep_greedy:
  assumes "lo \<le> length (takeWhile P s)"
    and "k (prev_after prev s (length (takeWhile P s))) (drop (length (takeWhile P s)) s) = Some a"
  shows "rx_rep P lo None k prev s = Some a"
  using assms by (simp add: rx_rep_def Let_def rx_try_first)

lemma rx_monetary_Some:
  assumes "rx_monetary rx_end prev s = Some r"
  shows "\<exists>run d1 d2. s = run @ CHR '','' # d1 # d2 # r \<and> run \<noteq> [] \<and> list_all digit_or_dot run \<and>
            re_digit d1 \<and> re_digit d2"
proof -
  from assms obtain j where j: "1 \<le> j" "j \<le> length s" "list_all digit_or_dot (take j s)"
      "rx_chr CHR '','' (rx_cls re_digit (rx_cls re_digit rx_end)) (prev_after prev s j) (drop j s) = Some r"
    unfolding rx_monetary_def by (blast dest: rx_rep_Some)
  from j(4) obtain cs1 where c1: "drop j s = CHR '','' # cs1"
      "rx_cls re_digit (rx_cls re_digit rx_end) (Some CHR '','') cs1 = Some r"
    by (blast dest: rx_chr_Some)
  from c1(2) obtain d1 cs2 where c2: "cs1 = d1 # cs2" "re_digit d1"
      "rx_cls re_digit rx_end (Some d1) cs2 = Some r"
    by (blast dest: rx_cls_Some)
  from c2(3) obtain d2 cs3 where c3: "cs2 = d2 # cs3" "re_digit d2" "rx_end (Some d2) cs3 = Some r"
    by (blast dest: rx_cls_Some)
  have "cs3 = r" using c3(3) by (simp add: rx_end_def)
  have "s = take j s @ drop j s" by simp
  then have "s = take j s @ CHR '','' # d1 # d2 # r"
    using c1(1) c2(1) c3(1) \<open>cs3 = r\<close> by simp
  moreover have "take j s \<noteq> []" using j(1,2) by (cases s) auto
  ultimately show ?thesis using j(3) c2(2) c3(2) by blast
qed

lemma re_finditer_from_elem:
  "(a, b, t) \<in> set (re_finditer_from m i prev s) \<Longrightarrow>
     \<exists>prev' s' r. m prev' s' = Some r \<and> length r < length s' \<and> t = take (length s' - length r) s'"
proof (induction m i prev s rule: re_finditer_from.induct)
  case (1 m i prev s)
  show ?case
  proof (cases "s = []")
    case True
    with "1.prems" show ?thesis by (simp add: re_finditer_from.simps)
  next
    case False
    show ?thesis
    proof (cases "m prev s")
      case None
      with False "1.prems" have "(a, b, t) \<in> set (re_finditer_from m (Suc i) (Some (hd s)) (tl s))"
        by (simp add: re_finditer_from.simps [of m i prev s])
      with "1.IH"(1) [OF False None] show ?thesis .
    next
      case (Some r)
      show ?thesis
      proof (cases "length s - length r = 0")
        case True
        with False Some "1.prems" have "(a, b, t) \<in> set (re_finditer_from m (Suc i) (Some (hd s)) (tl s))"
          by (simp add: re_finditer_from.simps [of m i prev s])
        with "1.IH"(2) [OF False Some refl True] show ?thesis .
      next
        case nz: False
        from False Some nz "1.prems"
        consider "(a, b, t) = (i, i + (length s - length r), take (length s - length r) s)"
          | "(a, b, t) \<in> set (re_finditer_from m (i + (length s - length r))
                (Some (s ! (length s - length r - 1))) (drop (length s - length r) s))"
          by (auto simp: re_finditer_from.simps [of m i prev s] Let_def)
        then show ?thesis
        proof cases
          case 1
          with Some nz show ?thesis by (intro exI [of _ prev] exI [of _ s] exI [of _ r]) auto
        next
          case 2
          with "1.IH"(3) [OF False Some refl nz] show ?thesis .
        qed
      qed
    qed
  qed
qed

subsection \<open>The monetary slots\<close>

lemma re_sub_from_cls:
  "re_sub_from (rx_cls P (rx_const rep)) prev s = concat (map (\<lambda>c. if P c then rep else [c]) s)"
proof (induction s arbitrary: prev)
  case Nil
  show ?case by (simp add: re_sub_from.simps)
next
  case (Cons c cs)
  show ?case
    by (subst re_sub_from.simps) (simp add: rx_cls_def rx_const_def Let_def Cons.IH)
qed

lemma re_sub_cls: "re_sub (rx_cls P (rx_const rep)) s = concat (map (\<lambda>c. if P c then rep else [c]) s)"
  by (simp add: re_sub_def re_sub_from_cls)

lemma concat_keep: "list_all (\<lambda>c. \<not> P c) s \<Longrightarrow> concat (map (\<lambda>c. if P c then rep else [c]) s) = s"
  by (induction s) auto

lemma finditer_money_token:
  assumes "(a, b, t) \<in> set (re_finditer (rx_monetary rx_end) s)"
  shows "money_token t"
proof -
  from assms obtain prev' s' r where h: "rx_monetary rx_end prev' s' = Some r"
      "length r < length s'" "t = take (length s' - length r) s'"
    unfolding re_finditer_def by (blast dest: re_finditer_from_elem)
  from rx_monetary_Some [OF h(1)] obtain run d1 d2 where
    sh: "s' = run @ CHR '','' # d1 # d2 # r" "run \<noteq> []" "list_all digit_or_dot run" "re_digit d1" "re_digit d2"
    by blast
  have "t = run @ [CHR '','', d1, d2]" using h(3) sh(1) by simp
  with sh show ?thesis unfolding money_token_def by blast
qed

lemma comma_not_digit_or_dot: "\<not> digit_or_dot CHR '',''"
  by (simp add: digit_or_dot_def re_digit_def in_range_def)

lemma takeWhile_run: "list_all P run \<Longrightarrow> \<not> P c \<Longrightarrow> takeWhile P (run @ c # rest) = run"
  by (induction run) auto

lemma parse_monetary_value_token:
  assumes "money_token t"
  shows "parse_monetary_value t = Some t"
proof -
  from assms obtain run d1 d2 where sh: "t = run @ [CHR '','', d1, d2]" "run \<noteq> []"
      "list_all digit_or_dot run" "re_digit d1" "re_digit d2"
    unfolding money_token_def by blast
  have all: "list_all (\<lambda>c. \<not> \<not> money_char c) t"
    using sh by (auto simp: money_char_def digit_or_dot_def list_all_iff)
  have cl: "re_sub (rx_cls (\<lambda>c. \<not> money_char c) (rx_const [])) t = t"
    unfolding re_sub_cls by (rule concat_keep) (rule all)
  have tw: "takeWhile digit_or_dot t = run"
    using sh(1,3) comma_not_digit_or_dot by (simp add: takeWhile_run)
  have dr: "drop (length run) t = [CHR '','', d1, d2]" using sh(1) by simp
  have "rx_chr CHR '','' (rx_cls re_digit (rx_cls re_digit (rx_eol rx_end)))
          (prev_after None t (length run)) [CHR '','', d1, d2] = Some []"
    using sh(4,5) by (simp add: rx_chr_def rx_cls_def rx_eol_def rx_end_def)
  then have "rx_rep digit_or_dot 1 None (rx_chr CHR '','' (rx_cls re_digit (rx_cls re_digit (rx_eol rx_end)))) None t = Some []"
    using sh(2) tw dr by (intro rx_rep_greedy) (auto simp: Suc_le_eq)
  then have "re_match (rx_monetary (rx_eol rx_end)) t = Some []"
    by (simp add: re_match_def rx_monetary_def)
  moreover have "t \<noteq> []" using sh(1) by simp
  ultimately show ?thesis by (simp add: parse_monetary_value_def Let_def cl)
qed

lemma money_token_nonempty: "money_token t \<Longrightarrow> t \<noteq> []"
  by (auto simp: money_token_def)

lemma slot_money:
  "i < length V \<Longrightarrow> list_all money_token V \<Longrightarrow> slot V (int i) = Inr (Some (V ! i))"
  by (simp add: slot_def bind_res_def py_index_nat parse_monetary_value_token list_all_length)

lemma assign_slots_money:
  assumes "list_all money_token V"
  shows "assign_slots V = Inr (slot_table_extract_pdf V)"
proof -
  have s: "i < length V \<Longrightarrow> slot V (int i) = Inr (Some (V ! i))" for i
    by (simp add: slot_money assms)
  consider "length V \<ge> 4" | "length V = 3" | "length V = 2" | "length V = 1" | "length V = 0"
    by linarith
  then show ?thesis
  proof cases
    case 1
    then have ne: "V \<noteq> []" by auto
    from 1 ne have "slot V 0 = Inr (Some (V ! 0))" "slot V 1 = Inr (Some (V ! 1))"
        "slot V 2 = Inr (Some (V ! 2))" "slot V 3 = Inr (Some (V ! 3))"
      using s [of 0] s [of 1] s [of 2] s [of 3] by auto
    with 1 show ?thesis
      by (simp add: assign_slots_def slot_table_extract_pdf_def bind_res_def Let_def)
  next
    case 2
    then have ne: "V \<noteq> []" by auto
    from 2 ne have "slot V 0 = Inr (Some (V ! 0))" "slot V 1 = Inr (Some (V ! 1))"
        "slot V 2 = Inr (Some (V ! 2))"
      using s [of 0] s [of 1] s [of 2] by auto
    with 2 show ?thesis
      by (simp add: assign_slots_def slot_table_extract_pdf_def bind_res_def Let_def)
  next
    case 3
    then have ne: "V \<noteq> []" by auto
    from 3 ne have "slot V 0 = Inr (Some (V ! 0))" "slot V 1 = Inr (Some (V ! 1))"
      using s [of 0] s [of 1] by auto
    with 3 show ?thesis
      by (simp add: assign_slots_def slot_table_extract_pdf_def bind_res_def Let_def)
  next
    case 4
    then have ne: "V \<noteq> []" by auto
    from 4 ne have "slot V 0 = Inr (Some (V ! 0))"
      using s [of 0] by auto
    with 4 show ?thesis
      by (simp add: assign_slots_def slot_table_extract_pdf_def bind_res_def Let_def)
  next
    case 5
    then show ?thesis by (simp add: assign_slots_def slot_table_extract_pdf_def)
  qed
qed

lemma findall_money: "list_all money_token (re_findall (rx_monetary rx_end) s)"
  by (auto simp: re_findall_def list_all_iff dest: finditer_money_token)

lemma or_none_slots:
  assumes "list_all money_token V"
  shows "(case slot_table_extract_pdf V of (pb, d, c, cb) \<Rightarrow> (or_none pb, or_none d, or_none c, or_none cb))
           = slot_table_extract_pdf V"
proof -
  have ne: "i < length V \<Longrightarrow> or_none (Some (V ! i)) = Some (V ! i)" for i
    using assms money_token_nonempty by (auto simp: or_none_def list_all_length)
  have n0: "or_none None = None" by (simp add: or_none_def)
  consider "length V \<ge> 4" | "length V = 3" | "length V = 2" | "length V = 1" | "length V = 0"
    by linarith
  then show ?thesis
  proof cases
    case 1
    then have "V \<noteq> []" by auto
    with 1 show ?thesis using ne [of 0] ne [of 1] ne [of 2] ne [of 3]
      by (simp add: slot_table_extract_pdf_def n0 Let_def)
  next
    case 2
    then have "V \<noteq> []" by auto
    with 2 show ?thesis using ne [of 0] ne [of 1] ne [of 2]
      by (simp add: slot_table_extract_pdf_def n0 Let_def)
  next
    case 3
    then have "V \<noteq> []" by auto
    with 3 show ?thesis using ne [of 0] ne [of 1]
      by (simp add: slot_table_extract_pdf_def n0 Let_def)
  next
    case 4
    then have "V \<noteq> []" by auto
    with 4 show ?thesis using ne [of 0]
      by (simp add: slot_table_extract_pdf_def n0 Let_def)
  next
    case 5
    then show ?thesis by (simp add: slot_table_extract_pdf_def n0 Let_def)
  qed
qed

lemma parse_data_line_slots:
  assumes "parse_data_line line = Inr (Some e)"
  shows "slots_of e = slot_table_extract_pdf (re_findall (rx_monetary rx_end) (py_strip line))"
proof (cases "re_finditer (rx_monetary rx_end) (py_strip line) = []")
  case True
  with assms show ?thesis
    by (auto simp: parse_data_line_def Let_def bind_res_def bare_entry_def slots_of_def
        re_findall_def slot_table_extract_pdf_def split: if_splits sum.splits)
next
  case False
  let ?V = "re_findall (rx_monetary rx_end) (py_strip line)"
  have V: "map (\<lambda>(a, b, t). t) (re_finditer (rx_monetary rx_end) (py_strip line)) = ?V"
    by (simp add: re_findall_def)
  have a: "assign_slots ?V = Inr (slot_table_extract_pdf ?V)"
    by (rule assign_slots_money) (rule findall_money)
  have o: "(case slot_table_extract_pdf ?V of (pb, d, c, cb) \<Rightarrow> (or_none pb, or_none d, or_none c, or_none cb))
           = slot_table_extract_pdf ?V"
    by (rule or_none_slots) (rule findall_money)
  obtain pb d c cb where t: "slot_table_extract_pdf ?V = (pb, d, c, cb)"
    by (cases "slot_table_extract_pdf ?V") auto
  from assms False show ?thesis
    using o unfolding t
    by (auto simp: parse_data_line_def Let_def bind_res_def slots_of_def V a t
        split: if_splits sum.splits prod.splits)
qed

lemma entry_slots_table: "entry_slots V = Inr (slot_table_final_parser V)"
proof -
  consider "length V \<ge> 4" | "length V = 3" | "length V = 2" | "length V = 1" | "length V = 0"
    by linarith
  then show ?thesis
  proof cases
    case 1
    then show ?thesis
      using py_index_neg [of 4 V] py_index_neg [of 3 V] py_index_neg [of 2 V] py_index_neg [of 1 V]
      by (simp add: entry_slots_def slot_table_final_parser_def bind_res_def Let_def)
  next
    case 2
    then have "V \<noteq> []" by auto
    with 2 show ?thesis
      using py_index_nat [of 0 V] py_index_nat [of 1 V] py_index_nat [of 2 V]
      by (simp add: entry_slots_def slot_table_final_parser_def bind_res_def Let_def)
  next
    case 3
    then have "V \<noteq> []" by auto
    with 3 show ?thesis
      using py_index_nat [of 0 V] py_index_nat [of 1 V]
      by (simp add: entry_slots_def slot_table_final_parser_def bind_res_def Let_def)
  next
    case 4
    then have "V \<noteq> []" by auto
    with 4 show ?thesis
      using py_index_nat [of 0 V]
      by (simp add: entry_slots_def slot_table_final_parser_def bind_res_def Let_def)
  next
    case 5
    then show ?thesis by (simp add: entry_slots_def slot_table_final_parser_def)
  qed
qed

lemma parse_entry_line_slots:
  assumes "parse_entry_line line = Inr (Some e)"
  shows "slots_of e = slot_table_final_parser (re_findall (rx_value rx_end) (py_strip line))"
  using assms
  by (auto simp: parse_entry_line_def Let_def bind_res_def slots_of_def entry_slots_table
      split: if_splits sum.splits prod.splits)

lemma eval_five_amounts:
  "parse_data_line ''ABC 1,00 2,00 3,00 4,00 5,00'' =
     Inr (Some \<lparr>code = None, classification = None, account = ''ABC'',
                previous_balance = Some ''1,00'', current_balance = Some ''4,00'',
                debit = Some ''2,00'', credit = Some ''3,00'', parent_category = None\<rparr>)"
  by code_simp

lemma eval_five_amounts_found:
  "re_findall (rx_monetary rx_end) (py_strip ''ABC 1,00 2,00 3,00 4,00 5,00'') =
     [''1,00'', ''2,00'', ''3,00'', ''4,00'', ''5,00'']"
  by code_simp

lemma eval_two_amounts:
  "parse_entry_line ''Caixa 2,00 3,00'' =
     Inr (Some \<lparr>code = None, classification = None, account = ''Caixa'',
                previous_balance = None, current_balance = Some ''3,00'',
                debit = Some ''2,00'', credit = None, parent_category = None\<rparr>)"
  by code_simp

lemma eval_two_amounts_found:
  "re_findall (rx_value rx_end) (py_strip ''Caixa 2,00 3,00'') = [''2,00'', ''3,00'']"
  by code_simp

text \<open>
  C1, as amended. The slots of a record are a function of the list \<open>V\<close> of the monetary
  matches of the line. In \<open>parse_data_line\<close> of \<open>extract_pdf.py\<close>: one amount is the
  current balance; two are previous and current balance; three are previous balance,
  debit and credit; with four or more, the first four fill the four slots. In
  \<open>parse_entry_line\<close> of \<open>final_balancete_parser.py\<close>: one amount is the current balance;
  two are debit and current balance; three are previous balance, debit and current
  balance; with four or more, the last four fill the four slots. Every other slot is null.
\<close>

theorem slots_follow_the_parser_tables:
  "(parse_data_line line = Inr (Some e) \<longrightarrow>
      slots_of e = slot_table_extract_pdf (re_findall (rx_monetary rx_end) (py_strip line))) \<and>
   (parse_entry_line line = Inr (Some e) \<longrightarrow>
      slots_of e = slot_table_final_parser (re_findall (rx_value rx_end) (py_strip line)))"
  using parse_data_line_slots parse_entry_line_slots by blast

theorem slots_follow_the_parser_tables_witness:
  "(\<exists>e. parse_data_line ''ABC 1,00 2,00 3,00 4,00 5,00'' = Inr (Some e) \<and>
        slots_of e = (Some ''1,00'', Some ''2,00'', Some ''3,00'', Some ''4,00'')) \<and>
   (\<exists>e. parse_entry_line ''Caixa 2,00 3,00'' = Inr (Some e) \<and>
        slots_of e = (None, Some ''2,00'', None, Some ''3,00''))"
proof -
  have "slot_table_extract_pdf [''1,00'', ''2,00'', ''3,00'', ''4,00'', ''5,00'']
          = (Some ''1,00'', Some ''2,00'', Some ''3,00'', Some ''4,00'')"
    by (simp add: slot_table_extract_pdf_def)
  moreover have "slot_table_final_parser [''2,00'', ''3,00''] = (None, Some ''2,00'', None, Some ''3,00'')"
    by (simp add: slot_table_final_parser_def)
  ultimately show ?thesis
    using slots_follow_the_parser_tables [of "''ABC 1,00 2,00 3,00 4,00 5,00''"]
      slots_follow_the_parser_tables [of "''Caixa 2,00 3,00''"]
      eval_five_amounts eval_five_amounts_found eval_two_amounts eval_two_amounts_found
    by simp
qed

theorem spec_slot_table_counterexample:
  "(\<exists>e. parse_data_line ''ABC 1,00 2,00 3,00 4,00 5,00'' = Inr (Some e) \<and>
        slots_of e \<noteq> spec_slot_table
          (re_findall (rx_monetary rx_end) (py_strip ''ABC 1,00 2,00 3,00 4,00 5,00''))) \<and>
   (\<exists>e. parse_entry_line ''Caixa 2,00 3,00'' = Inr (Some e) \<and>
        slots_of e \<noteq> spec_slot_table (re_findall (rx_value rx_end) (py_strip ''Caixa 2,00 3,00'')))"
  by (simp add: eval_five_amounts eval_five_amounts_found eval_two_amounts eval_two_amounts_found
      slots_of_def spec_slot_table_def)

subsection \<open>The line parsers raise nothing\<close>

lemma bind_res_total:
  "\<exists>a. x = Inr a \<Longrightarrow> (\<And>a. \<exists>b. f a = Inr b) \<Longrightarrow> \<exists>b. bind_res x f = Inr b"
  by (auto simp: bind_res_def)

lemma similarity_total: "length w > 3 \<Longrightarrow> \<exists>q. similarity w n = Inr q"
  by (cases w) (auto simp: similarity_def Let_def)

lemma dedup_words_total: "\<exists>r. dedup_words ws = Inr r"
proof (induction ws rule: dedup_words.induct)
  case 1
  show ?case by simp
next
  case (2 w)
  show ?case by simp
next
  case (3 w n rest)
  show ?case
  proof (cases "length w > 3 \<and> length n > 3")
    case False
    with "3.IH"(3) show ?thesis by (auto split: sum.splits)
  next
    case True
    then obtain q where q: "similarity w n = Inr q" using similarity_total by blast
    show ?thesis
    proof (cases "q > 8 / 10")
      case gt: True
      from "3.IH"(1) [OF True q gt] True q gt show ?thesis by (auto split: sum.splits)
    next
      case le: False
      from "3.IH"(2) [OF True q le] True q le show ?thesis by (auto split: sum.splits)
    qed
  qed
qed

lemma remove_duplicate_text_total: "\<exists>r. remove_duplicate_text s = Inr r"
  using dedup_words_total [of "py_split s"]
  by (auto simp: remove_duplicate_text_def Let_def bind_res_def)

lemma clean_account_name_final_total: "\<exists>r. clean_account_name_final s = Inr r"
proof (cases "s = []")
  case True
  then show ?thesis by (simp add: clean_account_name_final_def)
next
  case False
  have "\<exists>b. bind_res (remove_duplicate_text x) (\<lambda>name7. Inr (py_strip name7)) = Inr b" for x
    by (rule bind_res_total) (simp_all add: remove_duplicate_text_total)
  with False show ?thesis
    by (simp add: clean_account_name_final_def Let_def)
qed

lemma slot_total: "i < length V \<Longrightarrow> \<exists>r. slot V (int i) = Inr r"
  by (simp add: slot_def bind_res_def py_index_nat)

lemma assign_slots_total: "\<exists>r. assign_slots V = Inr r"
proof -
  have s: "i < length V \<Longrightarrow> \<exists>r. slot V (int i) = Inr r" for i by (rule slot_total)
  consider "length V \<ge> 4" | "length V = 3" | "length V = 2" | "length V = 1" | "length V = 0"
    by linarith
  then show ?thesis
  proof cases
    case 1
    then have ne: "V \<noteq> []" by auto
    from 1 ne obtain a b c d where "slot V 0 = Inr a" "slot V 1 = Inr b" "slot V 2 = Inr c" "slot V 3 = Inr d"
      using s [of 0] s [of 1] s [of 2] s [of 3] by auto
    with 1 show ?thesis by (simp add: assign_slots_def bind_res_def)
  next
    case 2
    then have ne: "V \<noteq> []" by auto
    from 2 ne obtain a b c where "slot V 0 = Inr a" "slot V 1 = Inr b" "slot V 2 = Inr c"
      using s [of 0] s [of 1] s [of 2] by auto
    with 2 show ?thesis by (simp add: assign_slots_def bind_res_def)
  next
    case 3
    then have ne: "V \<noteq> []" by auto
    from 3 ne obtain a b where "slot V 0 = Inr a" "slot V 1 = Inr b"
      using s [of 0] s [of 1] by auto
    with 3 show ?thesis by (simp add: assign_slots_def bind_res_def)
  next
    case 4
    then have ne: "V \<noteq> []" by auto
    from 4 ne obtain a where "slot V 0 = Inr a"
      using s [of 0] by auto
    with 4 show ?thesis by (simp add: assign_slots_def bind_res_def)
  next
    case 5
    then show ?thesis by (simp add: assign_slots_def)
  qed
qed

lemma code_and_classification_total: "\<exists>r. code_and_classification rx pbv = Inr r"
  by (cases "search_span rx pbv")
     (auto simp: code_and_classification_def Let_def bind_res_def match_obj_def falsy_def
           split: option.splits prod.splits)

lemma parse_data_line_total: "\<exists>r. parse_data_line line = Inr r"
proof -
  let ?l = "py_strip line"
  let ?ms = "re_finditer (rx_monetary rx_end) ?l"
  show ?thesis
  proof (cases "?ms = []")
    case True
    obtain c where "clean_account_name_final ?l = Inr c"
      using clean_account_name_final_total by blast
    with True show ?thesis by (simp add: parse_data_line_def Let_def bind_res_def)
  next
    case False
    then obtain vs ve vt where v: "py_index ?ms 0 = Inr (vs, ve, vt)"
      using py_index_0 [of ?ms] by (cases "hd ?ms") auto
    obtain cv clv idx where cc: "code_and_classification rx_class5_b (py_strip (take vs ?l)) = Inr (cv, clv, idx)"
      using code_and_classification_total by (metis prod_cases3)
    obtain a where a: "clean_account_name_final (py_strip (drop idx (py_strip (take vs ?l)))) = Inr a"
      using clean_account_name_final_total by blast
    obtain pb d c cb where sl: "assign_slots (map (\<lambda>(a, b, t). t) ?ms) = Inr (pb, d, c, cb)"
      using assign_slots_total by (metis prod_cases4)
    from False show ?thesis
      by (simp add: parse_data_line_def Let_def bind_res_def v cc a sl)
  qed
qed

lemma find_index_from_bound:
  "find_index_from i P xs = Some (j, x) \<Longrightarrow> i \<le> j \<and> j < i + length xs"
proof (induction xs arbitrary: i)
  case Nil
  then show ?case by simp
next
  case (Cons y ys)
  show ?case
  proof (cases "P y")
    case True
    with Cons.prems show ?thesis by simp
  next
    case False
    with Cons.prems have "find_index_from (Suc i) P ys = Some (j, x)" by simp
    from Cons.IH [OF this] show ?thesis by simp
  qed
qed

lemma indices_from_bound:
  "j \<in> set (indices_from i P xs) \<Longrightarrow> i \<le> j \<and> j < i + length xs"
proof (induction xs arbitrary: i)
  case Nil
  then show ?case by simp
next
  case (Cons y ys)
  from Cons.prems consider "j = i" | "j \<in> set (indices_from (Suc i) P ys)"
    by (auto split: if_splits)
  then show ?case
  proof cases
    case 1
    then show ?thesis by simp
  next
    case 2
    from Cons.IH [OF this] show ?thesis by simp
  qed
qed

lemma part_at_total:
  assumes "k < length (indices_from 0 P parts)"
  shows "\<exists>r. part_at parts (indices_from 0 P parts) (int k) = Inr r"
proof -
  let ?mi = "indices_from 0 P parts"
  have "?mi ! k \<in> set ?mi" using assms by simp
  then have "?mi ! k < length parts" using indices_from_bound [of "?mi ! k" 0 P parts] by simp
  then show ?thesis using assms
    by (simp add: part_at_def bind_res_def py_index_nat)
qed

lemma slots_v2_total: "\<exists>r. slots_v2 parts (indices_from 0 P parts) = Inr r"
proof -
  let ?mi = "indices_from 0 P parts"
  have s: "k < length ?mi \<Longrightarrow> \<exists>r. part_at parts ?mi (int k) = Inr r" for k
    by (rule part_at_total)
  consider "length ?mi \<ge> 4" | "length ?mi = 3" | "length ?mi = 2" | "length ?mi < 2"
    by linarith
  then show ?thesis
  proof cases
    case 1
    then have ne: "?mi \<noteq> []" by auto
    from 1 ne obtain a b c d where "part_at parts ?mi 0 = Inr a" "part_at parts ?mi 1 = Inr b"
        "part_at parts ?mi 2 = Inr c" "part_at parts ?mi 3 = Inr d"
      using s [of 0] s [of 1] s [of 2] s [of 3] by auto
    with 1 show ?thesis by (simp add: slots_v2_def bind_res_def)
  next
    case 2
    then have ne: "?mi \<noteq> []" by auto
    from 2 ne obtain a b c where "part_at parts ?mi 0 = Inr a" "part_at parts ?mi 1 = Inr b"
        "part_at parts ?mi 2 = Inr c"
      using s [of 0] s [of 1] s [of 2] by auto
    with 2 show ?thesis by (simp add: slots_v2_def bind_res_def)
  next
    case 3
    then have ne: "?mi \<noteq> []" by auto
    from 3 ne obtain a b where "part_at parts ?mi 0 = Inr a" "part_at parts ?mi 1 = Inr b"
      using s [of 0] s [of 1] by auto
    with 3 show ?thesis by (simp add: slots_v2_def bind_res_def)
  next
    case 4
    then show ?thesis by (simp add: slots_v2_def)
  qed
qed

lemma code_v2_total:
  "\<exists>r. code_v2 parts (map_option fst (find_index_from 0 P parts)) = Inr r"
proof (cases "find_index_from 0 P parts")
  case None
  then show ?thesis by (simp add: code_v2_def)
next
  case (Some jx)
  obtain j x where jx: "jx = (j, x)" by (cases jx)
  with Some have "j < length parts" using find_index_from_bound [of 0 P parts j x] by simp
  show ?thesis
  proof (cases "j > 0")
    case False
    with Some jx show ?thesis by (simp add: code_v2_def)
  next
    case True
    then have eq: "int j - 1 = int (j - 1)" by simp
    have lt: "j - 1 < length parts" using \<open>j < length parts\<close> by simp
    have "py_index parts (int (j - 1)) = Inr (parts ! (j - 1))"
      using lt by (rule py_index_nat)
    then have "py_index parts (int j - 1) = Inr (parts ! (j - 1))"
      by (simp only: eq)
    with Some jx True show ?thesis by (simp add: code_v2_def bind_res_def)
  qed
qed

lemma parse_line_total: "\<exists>r. parse_line line = Inr r"
proof -
  let ?l = "py_strip line"
  let ?parts = "line_parts ?l"
  let ?mi = "indices_from 0 is_monetary_part ?parts"
  obtain cv where cv: "code_v2 ?parts (map_option fst (find_index_from 0 is_classification_part ?parts)) = Inr cv"
    using code_v2_total by blast
  obtain pb d c cb where sl: "slots_v2 ?parts ?mi = Inr (pb, d, c, cb)"
    using slots_v2_total by (metis prod_cases4)
  have "\<exists>e. (if ?mi \<noteq> [] then py_index ?mi 0 else Inr (length ?parts)) = Inr e"
    by (simp add: py_index_0)
  then obtain e where e: "(if ?mi \<noteq> [] then py_index ?mi 0 else Inr (length ?parts)) = Inr e" ..
  show ?thesis
    by (simp add: parse_line_def Let_def bind_res_def cv sl e)
qed

text \<open>C8. The line parser is total and never raises: for every input string, each of
  \<open>extract_pdf.parse_data_line\<close>, \<open>final_balancete_parser.parse_entry_line\<close> and
  \<open>extract_pdf_v2.parse_line\<close> returns a result (\<open>Inr\<close>), which is either \<open>None\<close> (the line
  is rejected) or a record; no exception (\<open>Inl\<close>) escapes.\<close>

theorem line_parsers_never_raise:
  "(\<exists>r. parse_data_line line = Inr r) \<and> (\<exists>r. parse_entry_line line = Inr r) \<and>
   (\<exists>r. parse_line line = Inr r)"
  using parse_data_line_total [of line] parse_entry_line_total [of line] parse_line_total [of line]
  by (intro conjI)

end
